theory Spec2Isabelle
  imports Complex_Main
begin

section \<open>Conventions\<close>

text \<open>
  The Python floats of PREDSTORM are modelled as real numbers. Where the source can produce
  the IEEE value NaN and a property depends on it (the sliding-window distances of
  \<^verbatim>\<open>predstorm_l1.py\<close>), a float is a \<open>real option\<close> with \<open>None\<close> for NaN. Where
  the source divides and the divisor can be zero (the frame conversions of
  \<^verbatim>\<open>predstorm/data.py\<close>), the model leaves real arithmetic with the marker
  \<open>NonFinite\<close>: it is not a Python exception, it says that numpy continued with
  \<^verbatim>\<open>inf\<close> or \<^verbatim>\<open>nan\<close> values.
\<close>

datatype error =
    NotImplementedError string
  | Exception string
  | ValueError string
  | IndexError
  | KeyError
  | AttributeError
  | TypeError
  | ZeroDivisionError
  | UnboundLocalError
  | NonFinite

text \<open>Running a list of fallible steps in order; the first exception wins.\<close>

fun sequence_sum :: "('e + 'a) list \<Rightarrow> 'e + 'a list" where
  "sequence_sum [] = Inr []"
| "sequence_sum (x # xs) =
     (case x of
        Inl e \<Rightarrow> Inl e
      | Inr v \<Rightarrow> (case sequence_sum xs of Inl e \<Rightarrow> Inl e | Inr vs \<Rightarrow> Inr (v # vs)))"

section \<open>The analogue-ensemble sliding window (predstorm\_l1.py)\<close>

subsection \<open>Floats with NaN and the numpy operations of the distance\<close>

type_synonym fl = "real option"

definition fl_sub :: "fl \<Rightarrow> fl \<Rightarrow> fl" where
  "fl_sub a b = (case a of None \<Rightarrow> None | Some x \<Rightarrow> (case b of None \<Rightarrow> None | Some y \<Rightarrow> Some (x - y)))"

definition fl_add :: "fl \<Rightarrow> fl \<Rightarrow> fl" where
  "fl_add a b = (case a of None \<Rightarrow> None | Some x \<Rightarrow> (case b of None \<Rightarrow> None | Some y \<Rightarrow> Some (x + y)))"

definition fl_sq :: "fl \<Rightarrow> fl" where
  "fl_sq a = (case a of None \<Rightarrow> None | Some x \<Rightarrow> Some (x ^ 2))"

definition fl_sqrt :: "fl \<Rightarrow> fl" where
  "fl_sqrt a = (case a of None \<Rightarrow> None | Some x \<Rightarrow> if x < 0 then None else Some (sqrt x))"

text \<open>Division by \<^verbatim>\<open>np.size(...)\<close>; the only division by zero the distance can meet
  is \<^verbatim>\<open>0.0/0\<close> of an empty now window, which is NaN.\<close>

definition fl_div_size :: "fl \<Rightarrow> nat \<Rightarrow> fl" where
  "fl_div_size a n = (case a of None \<Rightarrow> None | Some x \<Rightarrow> if n = 0 then None else Some (x / real n))"

text \<open>\<^verbatim>\<open>a - b\<close> on one-dimensional arrays, with numpy's broadcasting of a length-1 array.\<close>

definition np_subtract :: "fl list \<Rightarrow> fl list \<Rightarrow> error + fl list" where
  "np_subtract xs ys =
     (if length xs = length ys then Inr (map2 fl_sub xs ys)
      else if length ys = 1 then Inr (map (\<lambda>x. fl_sub x (hd ys)) xs)
      else if length xs = 1 then Inr (map (\<lambda>y. fl_sub (hd xs) y) ys)
      else Inl (ValueError ''operands could not be broadcast together''))"

definition np_sum :: "fl list \<Rightarrow> fl" where
  "np_sum xs = foldr fl_add xs (Some 0)"

text \<open>Python's \<^verbatim>\<open>xs[a:b]\<close> for non-negative bounds: the slice is cut at the end of the array.\<close>

definition py_slice :: "'a list \<Rightarrow> nat \<Rightarrow> nat \<Rightarrow> 'a list" where
  "py_slice xs a b = take (b - a) (drop a xs)"

text \<open>\<^verbatim>\<open>np.sqrt(np.sum((btotn-btots)**2))/np.size(btotn)\<close>, the expression the loop evaluates
  for every variable.\<close>

definition dist_count_at :: "fl list \<Rightarrow> fl list \<Rightarrow> error + fl" where
  "dist_count_at now win =
     (case np_subtract now win of
        Inl e \<Rightarrow> Inl e
      | Inr d \<Rightarrow> Inr (fl_div_size (fl_sqrt (np_sum (map fl_sq d))) (length now)))"

subsection \<open>The loop over the training range\<close>

datatype pvar = Btot | Bz | By | Bx | Speed | Density

text \<open>The order in which one iteration of the loop treats the variables.\<close>

definition pvars :: "pvar list" where
  "pvars = [Btot, Bz, By, Bx, Speed, Density]"

fun pvar_index :: "pvar \<Rightarrow> nat" where
  "pvar_index Btot = 0"
| "pvar_index Bz = 1"
| "pvar_index By = 2"
| "pvar_index Bx = 3"
| "pvar_index Speed = 4"
| "pvar_index Density = 5"

text \<open>One iteration: \<^verbatim>\<open>inds=startindex+i\<close>, then for each variable the slice
  \<^verbatim>\<open>omni[var][inds:inds+deltat+1]\<close> and its distance to the now window.\<close>

definition window_step ::
  "(pvar \<Rightarrow> fl list) \<Rightarrow> (pvar \<Rightarrow> fl list) \<Rightarrow> nat \<Rightarrow> nat \<Rightarrow> nat \<Rightarrow> error + fl list" where
  "window_step now omni startindex deltat i =
     (let inds = startindex + i in
      sequence_sum
        (map (\<lambda>v. dist_count_at (now v) (py_slice (omni v) inds (inds + deltat + 1))) pvars))"

text \<open>\<^verbatim>\<open>for i in np.arange(0,trainsize)\<close>: one row of six distances per start index.\<close>

definition sliding_window ::
  "(pvar \<Rightarrow> fl list) \<Rightarrow> (pvar \<Rightarrow> fl list) \<Rightarrow> nat \<Rightarrow> nat \<Rightarrow> nat \<Rightarrow> error + fl list list" where
  "sliding_window now omni startindex deltat trainsize =
     sequence_sum (map (window_step now omni startindex deltat) [0..<trainsize])"

text \<open>The array \<^verbatim>\<open>dist_count_b\<close>, \<^verbatim>\<open>dist_count_bz\<close>, ... of one variable.\<close>

definition dist_count :: "pvar \<Rightarrow> fl list list \<Rightarrow> fl list" where
  "dist_count v rows = map (\<lambda>row. row ! pvar_index v) rows"

subsection \<open>Ranking: np.min, np.nanmin and np.argmin\<close>

definition finite_values :: "fl list \<Rightarrow> real list" where
  "finite_values xs = map the (filter (\<lambda>x. x \<noteq> None) xs)"

text \<open>Index of the first element satisfying a predicate.\<close>

fun first_index :: "('a \<Rightarrow> bool) \<Rightarrow> 'a list \<Rightarrow> nat" where
  "first_index P [] = 0"
| "first_index P (x # xs) = (if P x then 0 else Suc (first_index P xs))"

text \<open>\<^verbatim>\<open>np.min\<close>: a NaN anywhere makes the minimum NaN.\<close>

definition np_min :: "fl list \<Rightarrow> error + fl" where
  "np_min xs =
     (if xs = [] then Inl (ValueError ''zero-size array to reduction operation minimum'')
      else if None \<in> set xs then Inr None
      else Inr (Some (Min (set (finite_values xs)))))"

text \<open>\<^verbatim>\<open>np.nanmin\<close>: NaNs are skipped; an all-NaN array gives NaN (with a warning).\<close>

definition np_nanmin :: "fl list \<Rightarrow> error + fl" where
  "np_nanmin xs =
     (if xs = [] then Inl (ValueError ''zero-size array to reduction operation fmin'')
      else if finite_values xs = [] then Inr None
      else Inr (Some (Min (set (finite_values xs)))))"

text \<open>\<^verbatim>\<open>np.argmin\<close>: the index of the first NaN when there is one, else of the first
  minimum.\<close>

definition np_argmin :: "fl list \<Rightarrow> error + nat" where
  "np_argmin xs =
     (if xs = [] then Inl (ValueError ''attempt to get argmin of an empty sequence'')
      else if None \<in> set xs then Inr (first_index (\<lambda>x. x = None) xs)
      else Inr (first_index (\<lambda>x. x = Some (Min (set (finite_values xs)))) xs))"

text \<open>The best match of one variable: \<^verbatim>\<open>maxval_b=np.min(dist_count_b)\<close> for the total
  field, \<^verbatim>\<open>np.nanmin\<close> for the other five variables, and \<^verbatim>\<open>np.argmin\<close> for the
  position in every case.\<close>

definition rank_var :: "pvar \<Rightarrow> fl list \<Rightarrow> error + (fl \<times> nat)" where
  "rank_var v ds =
     (case (if v = Btot then np_min ds else np_nanmin ds) of
        Inl e \<Rightarrow> Inl e
      | Inr m \<Rightarrow> (case np_argmin ds of Inl e \<Rightarrow> Inl e | Inr p \<Rightarrow> Inr (m, p)))"

text \<open>The predicted continuation: \<^verbatim>\<open>indp=startindex+maxpos+deltat\<close> and the slice
  \<^verbatim>\<open>omni[var][indp:indp+deltat+1]\<close>.\<close>

definition predicted_wind :: "fl list \<Rightarrow> nat \<Rightarrow> nat \<Rightarrow> nat \<Rightarrow> fl list" where
  "predicted_wind series startindex deltat maxpos =
     (let indp = startindex + maxpos + deltat in py_slice series indp (indp + deltat + 1))"

text \<open>\<^verbatim>\<open>np.max(np.where(x > times))+1\<close>: one past the last index whose time is below
  \<open>x\<close>; \<^verbatim>\<open>np.max\<close> of an empty selection raises.\<close>

definition index_after :: "real \<Rightarrow> real list \<Rightarrow> error + nat" where
  "index_after x tnum =
     (case filter (\<lambda>k. x > tnum ! k) [0..<length tnum] of
        [] \<Rightarrow> Inl (ValueError ''zero-size array to reduction operation maximum'')
      | k # ks \<Rightarrow> Inr (last (k # ks) + 1))"

text \<open>\<^verbatim>\<open>startindex\<close> and \<^verbatim>\<open>trainsize=endindex-startindex\<close>; \<^verbatim>\<open>np.zeros\<close> of a negative
  size raises.\<close>

definition training_range :: "real \<Rightarrow> real \<Rightarrow> real list \<Rightarrow> error + (nat \<times> nat)" where
  "training_range trainstartnum trainendnum tnum =
     (case index_after trainstartnum tnum of
        Inl e \<Rightarrow> Inl e
      | Inr startindex \<Rightarrow>
          (case index_after trainendnum tnum of
             Inl e \<Rightarrow> Inl e
           | Inr endindex \<Rightarrow>
               if endindex < startindex then Inl (ValueError ''negative dimensions are not allowed'')
               else Inr (startindex, endindex - startindex)))"

subsection \<open>What the specification describes\<close>

text \<open>The root-mean-square deviation in the specification's words: the sum of squared
  differences at matching offsets, divided by the window length, then square-rooted.\<close>

definition spec_rms_deviation :: "real list \<Rightarrow> real list \<Rightarrow> real" where
  "spec_rms_deviation nw win =
     sqrt ((\<Sum>k<length nw. (nw ! k - win ! k) ^ 2) / real (length nw))"

text \<open>The pairs of samples the specification keeps: those where neither value is NaN.\<close>

definition spec_valid_pairs :: "fl list \<Rightarrow> fl list \<Rightarrow> (fl \<times> fl) list" where
  "spec_valid_pairs now win = filter (\<lambda>(a, b). a \<noteq> None \<and> b \<noteq> None) (zip now win)"

section \<open>The data containers (predstorm/data.py)\<close>

text \<open>A key in single quotes, as the exception messages print it.\<close>

definition quoted :: "string \<Rightarrow> string" where
  "quoted s = [CHR 0x27] @ s @ [CHR 0x27]"

text \<open>Sequencing of fallible steps: an exception of the first step propagates.\<close>

definition bind_sum :: "'e + 'a \<Rightarrow> ('a \<Rightarrow> 'e + 'b) \<Rightarrow> 'e + 'b" where
  "bind_sum m f = (case m of Inl e \<Rightarrow> Inl e | Inr x \<Rightarrow> f x)"

subsection \<open>Headers and keys\<close>

definition default_keys :: "string list" where
  "default_keys =
     [''time'',
      ''speed'', ''speedx'', ''density'', ''temp'', ''pdyn'',
      ''bx'', ''by'', ''bz'', ''btot'',
      ''br'', ''bt'', ''bn'',
      ''dst'', ''kp'', ''aurora'', ''ec'', ''ae'']"

text \<open>\<^verbatim>\<open>SatData.default_keys.index(var)\<close>, for a key of the list.\<close>

definition key_index :: "string \<Rightarrow> nat" where
  "key_index var = first_index (\<lambda>k. k = var) default_keys"

text \<open>The header dictionary with the keys of \<^verbatim>\<open>SatData.empty_header\<close> and the optional
  \<^verbatim>\<open>HeliosatObject\<close>, whose only use is its \<^verbatim>\<open>trajectory\<close> method (an external
  ephemeris service: times, frame, units and observer to one position vector per time).\<close>

type_synonym vec3 = "real \<times> real \<times> real"

type_synonym trajectory = "real list \<Rightarrow> string \<Rightarrow> string \<Rightarrow> string \<Rightarrow> vec3 list"

record header =
  DataSource :: string
  SourceURL :: string
  SamplingRate :: "real option"
  ReferenceFrame :: string
  FileVersion :: "(string \<times> string) list"
  Instruments :: "string list"
  HeliosatObject :: "trajectory option"

definition empty_header :: header where
  "empty_header =
     \<lparr>DataSource = [], SourceURL = [], SamplingRate = None, ReferenceFrame = [],
      FileVersion = [], Instruments = [], HeliosatObject = None\<rparr>"

subsection \<open>PositionData\<close>

text \<open>The header of a position object: the keys of \<^verbatim>\<open>PositionData.empty_header\<close>
  (\<^verbatim>\<open>ReferenceFrame\<close> is written \<open>PosReferenceFrame\<close> here) and the key
  \<^verbatim>\<open>Observer\<close> that \<^verbatim>\<open>load_positions\<close> adds.\<close>

record pos_header =
  PosReferenceFrame :: string
  CoordinateSystem :: string
  Units :: string
  Object :: string
  Observer :: "string option"

definition empty_pos_header :: pos_header where
  "empty_pos_header =
     \<lparr>PosReferenceFrame = [], CoordinateSystem = [], Units = [], Object = [],
      Observer = None\<rparr>"

record PositionData =
  positions :: "real list list"
  ph :: pos_header
  coors :: "string list"

text \<open>\<^verbatim>\<open>str.lower()\<close> on ASCII letters.\<close>

definition lower_char :: "char \<Rightarrow> char" where
  "lower_char c =
     (if 65 \<le> (of_char c :: nat) \<and> (of_char c :: nat) \<le> 90
      then char_of (of_char c + 32 :: nat) else c)"

definition str_lower :: "string \<Rightarrow> string" where
  "str_lower s = map lower_char s"

definition PositionData_init ::
  "real list list \<Rightarrow> string \<Rightarrow> pos_header option \<Rightarrow> error + PositionData" where
  "PositionData_init posdata postype hdr =
     (if str_lower postype \<notin> set [''xyz'', ''rlonlat'']
      then Inl (Exception (''PositionData __init__: postype must be either '' @ quoted ''xyz''
                  @ '' or '' @ quoted ''rlonlat'' @ ''!''))
      else Inr \<lparr>positions = posdata,
                ph = (case hdr of None \<Rightarrow> empty_pos_header | Some x \<Rightarrow> x)
                       \<lparr>CoordinateSystem := str_lower postype\<rparr>,
                coors = (if postype = ''xyz'' then [''x'', ''y'', ''z'']
                         else [''r'', ''lon'', ''lat''])\<rparr>)"

text \<open>\<^verbatim>\<open>PositionData.__getitem__\<close> with a string key.\<close>

definition pos_getitem :: "PositionData \<Rightarrow> string \<Rightarrow> error + real list" where
  "pos_getitem p var =
     (if var \<in> set (coors p)
      then Inr (positions p ! first_index (\<lambda>k. k = var) (coors p))
      else Inl (Exception (''PositionData object does not contain data under the key ''
                            @ quoted var @ ''!'')))"

text \<open>\<^verbatim>\<open>PositionData.__getitem__\<close> with an integer index: the column
  \<^verbatim>\<open>positions[:,var]\<close>.\<close>

definition pos_getitem_index :: "PositionData \<Rightarrow> nat \<Rightarrow> error + real list" where
  "pos_getitem_index p i =
     (if list_all (\<lambda>row. i < length row) (positions p)
      then Inr (map (\<lambda>row. row ! i) (positions p))
      else Inl IndexError)"

subsection \<open>SatData\<close>

record SatData =
  data :: "real list list"
  state :: "string option list"
  source :: "string option"
  h :: header
  pos :: "PositionData option"
  vars :: "string list"

text \<open>\<^verbatim>\<open>SatData.__init__\<close>. The input dictionary is an association list (Python keeps
  one value per key). \<^verbatim>\<open>np.asarray\<close> of rows of different lengths does not give the
  two-dimensional array the class works on; current numpy raises \<^verbatim>\<open>ValueError\<close>.\<close>

definition SatData_init ::
  "(string \<times> real list) list \<Rightarrow> string option \<Rightarrow> header option \<Rightarrow> error + SatData" where
  "SatData_init input_dict src hdr =
     (case filter (\<lambda>k. k \<notin> set default_keys) (map fst input_dict) of
        k # ks \<Rightarrow> Inl (NotImplementedError (''Key '' @ k @ '' not implemented in SatData class!''))
      | [] \<Rightarrow>
          (case map_of input_dict ''time'' of
             None \<Rightarrow> Inl (Exception ''Time variable is required for SatData object!'')
           | Some tm \<Rightarrow>
               (let dt = filter (\<lambda>x. x \<in> set (map fst input_dict)) default_keys;
                    rows = map (\<lambda>x. case map_of input_dict x of
                                       Some v \<Rightarrow> v
                                     | None \<Rightarrow> replicate (length tm) 0) default_keys
                in if \<not> list_all (\<lambda>r. length r = length tm) rows
                   then Inl (ValueError ''setting an array element with a sequence'')
                   else Inr \<lparr>data = rows,
                             state = replicate (length tm) None,
                             source = src,
                             h = (case hdr of None \<Rightarrow> empty_header | Some x \<Rightarrow> x),
                             pos = None,
                             vars = remove1 ''time'' dt\<rparr>)))"

text \<open>\<^verbatim>\<open>SatData.__getitem__\<close> with a string key.\<close>

definition getitem :: "SatData \<Rightarrow> string \<Rightarrow> error + real list" where
  "getitem d var =
     (if var \<in> set (vars d @ [''time''])
      then (if var \<in> set default_keys then Inr (data d ! key_index var)
            else Inl (ValueError (var @ '' is not in list'')))
      else Inl (Exception (''SatData object does not contain data under the key ''
                            @ quoted var @ ''!'')))"

text \<open>\<^verbatim>\<open>self.data[i] = value\<close>: numpy copies \<open>value\<close> into the row, broadcasting an array
  of length one, and raises when the lengths do not fit.\<close>

definition assign_row :: "SatData \<Rightarrow> string \<Rightarrow> real list \<Rightarrow> error + SatData" where
  "assign_row d var val =
     (if var \<notin> set default_keys then Inl (ValueError (var @ '' is not in list''))
      else (let i = key_index var; n = length (data d ! i)
            in if length val = n then Inr (d\<lparr>data := (data d)[i := val]\<rparr>)
               else if length val = 1 then Inr (d\<lparr>data := (data d)[i := replicate n (hd val)]\<rparr>)
               else Inl (ValueError ''could not broadcast input array'')))"

text \<open>\<^verbatim>\<open>SatData.__setitem__\<close> with a string key (any other index raises
  \<^verbatim>\<open>ValueError\<close>; the model's keys are strings).\<close>

definition setitem :: "SatData \<Rightarrow> string \<Rightarrow> real list \<Rightarrow> error + SatData" where
  "setitem d var val =
     (if var \<in> set (vars d) then assign_row d var val
      else if var \<in> set default_keys \<and> var \<notin> set (vars d)
      then bind_sum (assign_row d var val) (\<lambda>d'. Inr (d'\<lparr>vars := vars d' @ [var]\<rparr>))
      else Inl (Exception (''SatData object does not contain the key '' @ quoted var @ ''!'')))"

text \<open>\<^verbatim>\<open>SatData.__len__\<close>.\<close>

definition len :: "SatData \<Rightarrow> nat" where
  "len d = length (data d ! 0)"

text \<open>The keys \<^verbatim>\<open>interp_nans\<close> iterates over: \<^verbatim>\<open>if keys == None: keys = self.vars\<close>.\<close>

definition interp_nans_keys :: "SatData \<Rightarrow> string list option \<Rightarrow> string list" where
  "interp_nans_keys d keys = (case keys of None \<Rightarrow> vars d | Some ks \<Rightarrow> ks)"

section \<open>Frame conversions (predstorm/data.py)\<close>

subsection \<open>Vectors and matrices\<close>

type_synonym mat3 = "vec3 \<times> vec3 \<times> vec3"

definition dot3 :: "vec3 \<Rightarrow> vec3 \<Rightarrow> real" where
  "dot3 u v = (case u of (a, b, c) \<Rightarrow> (case v of (x, y, z) \<Rightarrow> a * x + b * y + c * z))"

definition scale3 :: "real \<Rightarrow> vec3 \<Rightarrow> vec3" where
  "scale3 k v = (case v of (x, y, z) \<Rightarrow> (k * x, k * y, k * z))"

definition add3 :: "vec3 \<Rightarrow> vec3 \<Rightarrow> vec3" where
  "add3 u v = (case u of (a, b, c) \<Rightarrow> (case v of (x, y, z) \<Rightarrow> (a + x, b + y, c + z)))"

text \<open>\<^verbatim>\<open>np.cross\<close> and \<^verbatim>\<open>np.linalg.norm\<close> of three-component vectors.\<close>

definition cross3 :: "vec3 \<Rightarrow> vec3 \<Rightarrow> vec3" where
  "cross3 u v =
     (case u of (a, b, c) \<Rightarrow> (case v of (x, y, z) \<Rightarrow> (b * z - c * y, c * x - a * z, a * y - b * x)))"

definition norm3 :: "vec3 \<Rightarrow> real" where
  "norm3 v = (case v of (x, y, z) \<Rightarrow> sqrt (x ^ 2 + y ^ 2 + z ^ 2))"

text \<open>\<^verbatim>\<open>np.dot\<close> of a matrix (three rows) with a vector and with a matrix, and the
  transpose.\<close>

definition mat_vec :: "mat3 \<Rightarrow> vec3 \<Rightarrow> vec3" where
  "mat_vec m v = (case m of (r1, r2, r3) \<Rightarrow> (dot3 r1 v, dot3 r2 v, dot3 r3 v))"

definition transpose3 :: "mat3 \<Rightarrow> mat3" where
  "transpose3 m =
     (case m of ((a, b, c), (d, e, f), (g, k, l)) \<Rightarrow> ((a, d, g), (b, e, k), (c, f, l)))"

definition mat_mul :: "mat3 \<Rightarrow> mat3 \<Rightarrow> mat3" where
  "mat_mul m n =
     (case transpose3 n of (c1, c2, c3) \<Rightarrow>
        (case m of (r1, r2, r3) \<Rightarrow>
           ((dot3 r1 c1, dot3 r1 c2, dot3 r1 c3),
            (dot3 r2 c1, dot3 r2 c2, dot3 r2 c3),
            (dot3 r3 c1, dot3 r3 c2, dot3 r3 c3))))"

text \<open>The two shapes of matrix the source writes out:
  \<^verbatim>\<open>[[cos a, sin a, 0], [-sin a, cos a, 0], [0, 0, 1]]\<close> and
  \<^verbatim>\<open>[[1,0,0],[0,cos a, sin a], [0, -sin a, cos a]]\<close>.\<close>

definition rot_z :: "real \<Rightarrow> mat3" where
  "rot_z a = ((cos a, sin a, 0), (- sin a, cos a, 0), (0, 0, 1))"

definition rot_x :: "real \<Rightarrow> mat3" where
  "rot_x a = ((1, 0, 0), (0, cos a, sin a), (0, - sin a, cos a))"

subsection \<open>Calendar quantities\<close>

text \<open>The calendar is external (\<^verbatim>\<open>astropy.time\<close> and \<^verbatim>\<open>matplotlib.dates.num2date\<close>): the
  Julian date of a time number and the hour, minute and second of its date.\<close>

record calendar =
  jd_of :: "real \<Rightarrow> real"
  hour_of :: "real \<Rightarrow> nat"
  minute_of :: "real \<Rightarrow> nat"
  second_of :: "real \<Rightarrow> nat"

text \<open>Python's \<^verbatim>\<open>int(x)\<close> of a float truncates towards zero.\<close>

definition py_int :: "real \<Rightarrow> int" where
  "py_int x = (if 0 \<le> x then \<lfloor>x\<rfloor> else \<lceil>x\<rceil>)"

text \<open>\<^verbatim>\<open>mjd[i]=float(int(jd-2400000.5))\<close> and
  \<^verbatim>\<open>UT=dobj.hour + dobj.minute / 60. + dobj.second / 3600.\<close>\<close>

definition mjd_of :: "calendar \<Rightarrow> real \<Rightarrow> real" where
  "mjd_of cal t = of_int (py_int (jd_of cal t - 2400000.5))"

definition UT_of :: "calendar \<Rightarrow> real \<Rightarrow> real" where
  "UT_of cal t = real (hour_of cal t) + real (minute_of cal t) / 60 + real (second_of cal t) / 3600"

definition T00_of :: "real \<Rightarrow> real" where
  "T00_of mjd = (mjd - 51544.5) / 36525.0"

text \<open>\<^verbatim>\<open>lt2\<close>, the Sun's ecliptic longitude in radians.\<close>

definition sun_lt2 :: "real \<Rightarrow> real \<Rightarrow> real" where
  "sun_lt2 T00 UT =
     (let LAMBDA = 280.460 + 36000.772 * T00 + 0.04107 * UT;
          M = 357.528 + 35999.050 * T00 + 0.04107 * UT
      in (LAMBDA + (1.915 - 0.0048 * T00) * sin (M * pi / 180) + 0.020 * sin (2 * M * pi / 180))
           * pi / 180)"

subsection \<open>GSE to GSM\<close>

text \<open>The geomagnetic pole in GEO coordinates and \<^verbatim>\<open>Qe=np.dot(T2T1t,Qg)\<close>.\<close>

definition Qe_of :: "real \<Rightarrow> real \<Rightarrow> vec3" where
  "Qe_of mjd UT =
     (let T00 = T00_of mjd;
          pgeo = 78.8 + 4.283 * ((mjd - 46066) / 365.25) * 0.01;
          lgeo = 289.1 - 1.413 * ((mjd - 46066) / 365.25) * 0.01;
          Qg = (cos (pgeo * pi / 180) * cos (lgeo * pi / 180),
                cos (pgeo * pi / 180) * sin (lgeo * pi / 180),
                sin (pgeo * pi / 180));
          zeta = (100.461 + 36000.770 * T00 + 15.04107 * UT) * pi / 180;
          T1 = rot_z zeta;
          lt2 = sun_lt2 T00 UT;
          t2z = rot_z lt2;
          et2 = (23.439 - 0.013 * T00) * pi / 180;
          t2x = rot_x et2;
          T2 = mat_mul t2z t2x;
          T2T1t = mat_mul T2 (transpose3 T1)
      in mat_vec T2T1t Qg)"

text \<open>\<^verbatim>\<open>psigsm=np.arctan(Qe.item(1)/Qe.item(2))\<close>. With a zero third component numpy
  divides by zero: the quotient is infinite or NaN, outside real arithmetic.\<close>

definition psigsm_of :: "real \<Rightarrow> real \<Rightarrow> real option" where
  "psigsm_of mjd UT =
     (case Qe_of mjd UT of (qx, qy, qz) \<Rightarrow> if qz = 0 then None else Some (arctan (qy / qz)))"

text \<open>\<^verbatim>\<open>GSM=np.dot(T3,GSE)\<close> for one sample.\<close>

definition GSE_to_GSM_sample :: "real \<Rightarrow> real \<Rightarrow> vec3 \<Rightarrow> vec3 option" where
  "GSE_to_GSM_sample mjd UT GSE =
     (case psigsm_of mjd UT of
        None \<Rightarrow> None
      | Some psigsm \<Rightarrow> Some (mat_vec (rot_x (- psigsm)) GSE))"

text \<open>Python's \<^verbatim>\<open>str.replace(old, new)\<close>: the occurrences of \<open>old\<close> are replaced from
  left to right.\<close>

function str_replace :: "string \<Rightarrow> string \<Rightarrow> string \<Rightarrow> string" where
  "str_replace s old new =
     (if s = [] \<or> old = [] then s
      else if take (length old) s = old then new @ str_replace (drop (length old) s) old new
      else hd s # str_replace (tl s) old new)"
  by pat_completeness auto
termination
  by (relation "measure (\<lambda>(s, old, new). length s)") (auto simp: neq_Nil_conv)

definition fst3 :: "vec3 \<Rightarrow> real" where
  "fst3 v = (case v of (x, y, z) \<Rightarrow> x)"

definition snd3 :: "vec3 \<Rightarrow> real" where
  "snd3 v = (case v of (x, y, z) \<Rightarrow> y)"

definition thd3 :: "vec3 \<Rightarrow> real" where
  "thd3 v = (case v of (x, y, z) \<Rightarrow> z)"

text \<open>The three assignments \<^verbatim>\<open>self['bx'] = ...\<close>, \<^verbatim>\<open>self['by'] = ...\<close>,
  \<^verbatim>\<open>self['bz'] = ...\<close> that end both conversions.\<close>

definition store_bxyz :: "SatData \<Rightarrow> vec3 list \<Rightarrow> error + SatData" where
  "store_bxyz d vs =
     bind_sum (setitem d ''bx'' (map fst3 vs)) (\<lambda>d1.
     bind_sum (setitem d1 ''by'' (map snd3 vs)) (\<lambda>d2.
     setitem d2 ''bz'' (map thd3 vs)))"

text \<open>The vector \<^verbatim>\<open>[self['bx'][i], self['by'][i], self['bz'][i]]\<close> of sample \<open>i\<close>.\<close>

definition read_vec :: "SatData \<Rightarrow> string \<Rightarrow> string \<Rightarrow> string \<Rightarrow> nat \<Rightarrow> error + vec3" where
  "read_vec d k1 k2 k3 i =
     bind_sum (getitem d k1) (\<lambda>b1.
     bind_sum (getitem d k2) (\<lambda>b2.
     bind_sum (getitem d k3) (\<lambda>b3. Inr (b1 ! i, b2 ! i, b3 ! i))))"

text \<open>\<^verbatim>\<open>SatData.convert_GSE_to_GSM\<close>. The loop fills the local output arrays; the object
  is written after the loop. The last statement,
  \<^verbatim>\<open>self.h['ReferenceFrame'].replace('GSE', 'GSM')\<close>, computes a new string and drops it.\<close>

definition convert_GSE_to_GSM :: "calendar \<Rightarrow> SatData \<Rightarrow> error + SatData" where
  "convert_GSE_to_GSM cal d =
     bind_sum (getitem d ''time'') (\<lambda>tm.
     bind_sum (sequence_sum
        (map (\<lambda>i. bind_sum (read_vec d ''bx'' ''by'' ''bz'' i) (\<lambda>GSE.
                     Inr (GSE_to_GSM_sample (mjd_of cal (tm ! i)) (UT_of cal (tm ! i)) GSE)))
           [0..<length tm])) (\<lambda>res.
     if None \<in> set res then Inl NonFinite
     else bind_sum (store_bxyz d (map the res)) (\<lambda>d3.
          (let dropped = str_replace (ReferenceFrame (h d3)) ''GSE'' ''GSM'' in Inr d3))))"

subsection \<open>RTN to GSE\<close>

definition sphere2cart :: "real \<Rightarrow> real \<Rightarrow> real \<Rightarrow> vec3" where
  "sphere2cart r phi theta = (r * cos theta * cos phi, r * cos theta * sin phi, r * sin theta)"

text \<open>\<^verbatim>\<open>AU = 149597870.700\<close>, the local constant of the method, in km.\<close>

definition AU_km :: real where
  "AU_km = 149597870.700"

text \<open>The spacecraft position of sample \<open>i\<close>: from the arrays passed as arguments (the
  last position time below the sample time) or from the attached position object.\<close>

definition rtn_position ::
  "SatData \<Rightarrow> real list list \<Rightarrow> real list \<Rightarrow> real list \<Rightarrow> nat \<Rightarrow> error + vec3" where
  "rtn_position d pos_obj pos_tnum tm i =
     (if length pos_obj > 0 \<and> length pos_tnum > 0 then
        (case filter (\<lambda>k. pos_tnum ! k < tm ! i) [0..<length pos_tnum] of
           [] \<Rightarrow> Inl IndexError
         | k # ks \<Rightarrow>
             (let time_ind_pos = last (k # ks)
              in if length pos_obj < 3 \<or> \<not> list_all (\<lambda>row. time_ind_pos < length row) (take 3 pos_obj)
                 then Inl IndexError
                 else Inr (sphere2cart (pos_obj ! 0 ! time_ind_pos) (pos_obj ! 1 ! time_ind_pos)
                             (pos_obj ! 2 ! time_ind_pos))))
      else
        (case pos d of
           None \<Rightarrow> Inl AttributeError
         | Some p \<Rightarrow>
             if CoordinateSystem (ph p) = ''rlonlat'' then
               bind_sum (pos_getitem p ''r'') (\<lambda>r.
               bind_sum (pos_getitem p ''lon'') (\<lambda>lon.
               bind_sum (pos_getitem p ''lat'') (\<lambda>lat.
                 if i < length r \<and> i < length lon \<and> i < length lat
                 then Inr (scale3 (1 / AU_km) (sphere2cart (r ! i) (lon ! i) (lat ! i)))
                 else Inl IndexError)))
             else
               bind_sum (pos_getitem_index p i) (\<lambda>c.
                 if length c = 3 then Inr (scale3 (1 / AU_km) (c ! 0, c ! 1, c ! 2))
                 else Inl (ValueError ''not enough values to unpack''))))"

text \<open>The projection of the RTN components on the HEEQ axes. The three normalisations
  divide by a norm; a zero norm gives NaN components, written \<open>None\<close>.\<close>

definition RTN_to_HEEQ_sample :: "vec3 \<Rightarrow> vec3 \<Rightarrow> vec3 option" where
  "RTN_to_HEEQ_sample p b =
     (let X_heeq = (1, 0, 0); Y_heeq = (0, 1, 0); Z_heeq = (0, 0, 1)
      in if norm3 p = 0 then None
         else (let Xrtn = scale3 (1 / norm3 p) p
               in if norm3 (cross3 Z_heeq Xrtn) = 0 then None
                  else (let Yrtn = scale3 (1 / norm3 (cross3 Z_heeq Xrtn)) (cross3 Z_heeq Xrtn)
                        in if norm3 (cross3 Xrtn Yrtn) = 0 then None
                           else (let Zrtn = scale3 (1 / norm3 (cross3 Xrtn Yrtn)) (cross3 Xrtn Yrtn);
                                     v = add3 (add3 (scale3 (fst3 b) Xrtn) (scale3 (snd3 b) Yrtn))
                                           (scale3 (thd3 b) Zrtn)
                                 in Some (dot3 v X_heeq, dot3 v Y_heeq, dot3 v Z_heeq)))))"

text \<open>\<^verbatim>\<open>np.mod\<close> on floats: the result has the sign of the divisor.\<close>

definition np_mod :: "real \<Rightarrow> real \<Rightarrow> real" where
  "np_mod x y = x - y * of_int \<lfloor>x / y\<rfloor>"

definition inclination_ecl :: real where
  "inclination_ecl = 7.25 * pi / 180"

text \<open>\<^verbatim>\<open>theta_node=np.arctan(np.cos(inclination_ecl)*np.tan(lt2-omega_node))\<close> and the two
  angles in degrees that the quadrant test compares. (\<^verbatim>\<open>np.tan\<close> is finite on every
  float.)\<close>

definition theta_node_of :: "real \<Rightarrow> real \<Rightarrow> real" where
  "theta_node_of lt2 omega_node = arctan (cos inclination_ecl * tan (lt2 - omega_node))"

definition lambda_omega_deg :: "real \<Rightarrow> real \<Rightarrow> real" where
  "lambda_omega_deg lt2 omega_node = np_mod (lt2 - omega_node) (2 * pi) * 180 / pi"

definition theta_node_deg :: "real \<Rightarrow> real \<Rightarrow> real" where
  "theta_node_deg lt2 omega_node = theta_node_of lt2 omega_node * 180 / pi"

text \<open>\<^verbatim>\<open>if abs(lambda_omega_deg-theta_node_deg) < 180: theta_node=theta_node+np.pi\<close>: the
  angle the matrix \<^verbatim>\<open>S2_theta\<close> is built from.\<close>

definition theta_node_corrected :: "real \<Rightarrow> real \<Rightarrow> real" where
  "theta_node_corrected lt2 omega_node =
     (if \<bar>lambda_omega_deg lt2 omega_node - theta_node_deg lt2 omega_node\<bar> < 180
      then theta_node_of lt2 omega_node + pi
      else theta_node_of lt2 omega_node)"

definition omega_node_of :: "real \<Rightarrow> real" where
  "omega_node_of mjd = (73.6667 + 0.013958 * ((mjd + 3242) / 365.25)) * pi / 180"

text \<open>\<^verbatim>\<open>HEEQ_to_HEE_matrix=np.dot(S1, S2)\<close>.\<close>

definition HEEQ_to_HEE_matrix :: "real \<Rightarrow> real \<Rightarrow> mat3" where
  "HEEQ_to_HEE_matrix mjd UT =
     (let T00 = T00_of mjd;
          lt2 = sun_lt2 T00 UT;
          S1 = rot_z (lt2 + pi);
          omega_node = omega_node_of mjd;
          S2_omega = rot_z (- omega_node);
          S2_incl = rot_x (- inclination_ecl);
          theta_node = theta_node_corrected lt2 omega_node;
          S2_theta = rot_z (- theta_node);
          S2 = mat_mul (mat_mul S2_omega S2_incl) S2_theta
      in mat_mul S1 S2)"

text \<open>HEEQ to HEE, then the change of sign of the first two components for GSE.\<close>

definition HEEQ_to_GSE_sample :: "real \<Rightarrow> real \<Rightarrow> vec3 \<Rightarrow> vec3" where
  "HEEQ_to_GSE_sample mjd UT HEEQ =
     (case mat_vec (HEEQ_to_HEE_matrix mjd UT) HEEQ of (hx, hy, hz) \<Rightarrow> (- hx, - hy, hz))"

text \<open>\<^verbatim>\<open>SatData.convert_RTN_to_GSE\<close>. The check for position data comes before the loops;
  the object is written after them.\<close>

definition convert_RTN_to_GSE ::
  "calendar \<Rightarrow> SatData \<Rightarrow> real list list \<Rightarrow> real list \<Rightarrow> error + SatData" where
  "convert_RTN_to_GSE cal d pos_obj pos_tnum =
     bind_sum (getitem d ''time'') (\<lambda>tm.
     if length pos_obj = 0 \<and> length pos_tnum = 0 \<and> pos d = None
     then Inl (Exception
       ''Load position data (SatData.load_position_data()) before calling convert_RTN_to_GSE()!'')
     else
     bind_sum (sequence_sum
        (map (\<lambda>i. bind_sum (rtn_position d pos_obj pos_tnum tm i) (\<lambda>p.
                   bind_sum (read_vec d ''br'' ''bt'' ''bn'' i) (\<lambda>b.
                     Inr (RTN_to_HEEQ_sample p b))))
           [0..<length tm])) (\<lambda>heeq.
     (let gse = map (\<lambda>i. map_option
                       (HEEQ_to_GSE_sample (mjd_of cal (tm ! i)) (UT_of cal (tm ! i))) (heeq ! i))
                  [0..<length tm]
      in if None \<in> set gse then Inl NonFinite
         else bind_sum (store_bxyz d (map the gse)) (\<lambda>d3.
              Inr (d3\<lparr>h := (h d3)\<lparr>ReferenceFrame := ReferenceFrame (h d3) @ ''-GSE''\<rparr>\<rparr>)))))"

subsection \<open>Invariant, accessors and examples\<close>

text \<open>The invariant of the two-dimensional array \<^verbatim>\<open>self.data\<close>: one row per default key,
  all rows of the length of the time row.\<close>

definition wf_SatData :: "SatData \<Rightarrow> bool" where
  "wf_SatData d \<longleftrightarrow>
     length (data d) = length default_keys \<and> list_all (\<lambda>r. length r = len d) (data d)"

text \<open>The stored vector of sample \<open>i\<close> under three keys.\<close>

definition stored_vec :: "SatData \<Rightarrow> string \<Rightarrow> string \<Rightarrow> string \<Rightarrow> nat \<Rightarrow> vec3" where
  "stored_vec d k1 k2 k3 i =
     (data d ! key_index k1 ! i, data d ! key_index k2 ! i, data d ! key_index k3 ! i)"

text \<open>The list \<^verbatim>\<open>self.vars\<close> after an assignment to key \<open>k\<close>.\<close>

definition activate :: "string \<Rightarrow> string list \<Rightarrow> string list" where
  "activate k vs = (if k \<in> set vs then vs else vs @ [k])"

text \<open>The specification's condition of the quadrant rule, in its words: the two angles, as
  directions (degrees modulo 360), fall in the same 180-degree-wide sector of the circle,
  \<open>[0, 180)\<close> (sector 0) or \<open>[180, 360)\<close> (sector 1).\<close>

definition spec_sector :: "real \<Rightarrow> int" where
  "spec_sector a = \<lfloor>np_mod a 360 / 180\<rfloor>"

definition spec_same_sector :: "real \<Rightarrow> real \<Rightarrow> bool" where
  "spec_same_sector a b \<longleftrightarrow> spec_sector a = spec_sector b"

text \<open>Example inputs: noon of 1 January 2000 (Julian date 2451545), a one-sample container
  of GSE data without positions, and a one-sample container of RTN data with its position
  attached.\<close>

definition example_calendar :: calendar where
  "example_calendar =
     \<lparr>jd_of = (\<lambda>t. 2451545), hour_of = (\<lambda>t. 12), minute_of = (\<lambda>t. 0), second_of = (\<lambda>t. 0)\<rparr>"

definition example_GSE :: SatData where
  "example_GSE =
     \<lparr>data = [[730120.5], [400], [0], [10], [0], [0], [3], [4], [0], [5], [0], [0], [0],
              [0], [0], [0], [0], [0]],
      state = [None],
      source = Some ''DSCOVR'',
      h = empty_header\<lparr>ReferenceFrame := ''GSE''\<rparr>,
      pos = None,
      vars = [''speed'', ''density'', ''bx'', ''by'', ''bz'', ''btot'']\<rparr>"

definition example_RTN :: SatData where
  "example_RTN =
     \<lparr>data = [[730120.5], [400], [0], [10], [0], [0], [1], [2], [2], [0], [3], [4], [12],
              [0], [0], [0], [0], [0]],
      state = [None],
      source = Some ''STEREO-A'',
      h = empty_header\<lparr>ReferenceFrame := ''RTN''\<rparr>,
      pos = Some \<lparr>positions = [[1], [0], [0]],
                  ph = \<lparr>PosReferenceFrame = ''HEEQ'', CoordinateSystem = ''rlonlat'',
                        Units = ''AU'', Object = [], Observer = Some ''SUN''\<rparr>,
                  coors = [''r'', ''lon'', ''lat'']\<rparr>,
      vars = [''speed'', ''density'', ''bx'', ''by'', ''bz'', ''br'', ''bt'', ''bn'']\<rparr>"

section \<open>Resampling and merging (predstorm/data.py)\<close>

text \<open>\<^verbatim>\<open>np.interp(x, xp, fp)\<close> at one point, for increasing sample points \<open>xp\<close>: the
  first value left of the samples, the last value right of them, linear in between.\<close>

fun interp_at :: "real \<Rightarrow> real list \<Rightarrow> real list \<Rightarrow> real" where
  "interp_at x (x0 # x1 # xs) (f0 # f1 # fs) =
     (if x < x1
      then (if x \<le> x0 then f0 else f0 + (x - x0) * ((f1 - f0) / (x1 - x0)))
      else interp_at x (x1 # xs) (f1 # fs))"
| "interp_at x [x0] (f0 # fs) = f0"
| "interp_at x xp fp = 0"

definition np_interp :: "real list \<Rightarrow> real list \<Rightarrow> real list \<Rightarrow> error + real list" where
  "np_interp xs xp fp =
     (if xp = [] then Inl (ValueError ''array of sample points is empty'')
      else if length xp \<noteq> length fp then Inl (ValueError ''fp and xp are not of the same length'')
      else Inr (map (\<lambda>x. interp_at x xp fp) xs))"

text \<open>A dictionary as an association list: \<^verbatim>\<open>d[k] = v\<close>.\<close>

fun dict_set :: "('k \<times> 'v) list \<Rightarrow> 'k \<Rightarrow> 'v \<Rightarrow> ('k \<times> 'v) list" where
  "dict_set [] k v = [(k, v)]"
| "dict_set ((k', v') # kvs) k v = (if k' = k then (k, v) # kvs else (k', v') # dict_set kvs k v)"

text \<open>\<^verbatim>\<open>{**a, **b}\<close>.\<close>

definition dict_merge :: "('k \<times> 'v) list \<Rightarrow> ('k \<times> 'v) list \<Rightarrow> ('k \<times> 'v) list" where
  "dict_merge a b = fold (\<lambda>kv acc. dict_set acc (fst kv) (snd kv)) b a"

text \<open>\<^verbatim>\<open>SatData.interp_to_time\<close>, without the resampling of the attached positions when
  there are none. The dictionary starts with the new time axis; then every key of
  \<^verbatim>\<open>self.vars\<close> is interpolated and stored.\<close>

definition interp_to_time :: "SatData \<Rightarrow> real list \<Rightarrow> error + SatData" where
  "interp_to_time d tarray =
     (if length tarray < 2 then Inl IndexError
      else
        (let resolution = tarray ! 1 - tarray ! 0 in
         bind_sum (getitem d ''time'') (\<lambda>tm.
         bind_sum (sequence_sum
            (map (\<lambda>k. bind_sum (getitem d k) (\<lambda>fk.
                       bind_sum (np_interp tarray tm fk) (\<lambda>na. Inr (k, na))))
               (vars d))) (\<lambda>cols.
         bind_sum (SatData_init
            (fold (\<lambda>kv acc. dict_set acc (fst kv) (snd kv)) cols [(''time'', tarray)])
            (source d) (Some (h d))) (\<lambda>newData.
         (let newData = newData\<lparr>h := (h newData)\<lparr>SamplingRate := Some resolution\<rparr>\<rparr>
          in case pos d of
               None \<Rightarrow> Inr newData
             | Some p \<Rightarrow>
                 bind_sum (sequence_sum
                    (map (\<lambda>k. bind_sum (pos_getitem p k) (\<lambda>c. np_interp tarray tm c)) (coors p)))
                   (\<lambda>na.
                 bind_sum (PositionData_init na (CoordinateSystem (ph p)) (Some (ph p)))
                   (\<lambda>newPos. Inr (newData\<lparr>pos := Some newPos\<rparr>)))))))))"

text \<open>The time step \<^verbatim>\<open>merge_Data\<close> derives from the declared sampling rate of the first
  data set.\<close>

definition merge_timestep :: "real \<Rightarrow> real" where
  "merge_timestep rate =
     (if rate - 1 / 24 < 0.0001 then 1 / 24
      else if rate - 1 / 24 / 60 < 0.0001 then 1 / 24 / 60
      else rate)"

text \<open>\<^verbatim>\<open>len(np.arange(start, stop, step))\<close> for a positive step.\<close>

definition np_arange_len :: "real \<Rightarrow> real \<Rightarrow> real \<Rightarrow> nat" where
  "np_arange_len start stop step = nat \<lceil>(stop - start) / step\<rceil>"

text \<open>\<^verbatim>\<open>n_timesteps\<close> and \<^verbatim>\<open>new_time\<close>:
  \<^verbatim>\<open>np.array(satdata1['time'][-1] + np.arange(1, n_timesteps) * timestep)\<close>.\<close>

definition merge_new_time :: "real \<Rightarrow> real \<Rightarrow> real \<Rightarrow> real list" where
  "merge_new_time t1_last t2_last timestep =
     (let n_timesteps = np_arange_len (t1_last + timestep) t2_last timestep
      in map (\<lambda>k. t1_last + real k * timestep) [1..<n_timesteps])"

text \<open>\<^verbatim>\<open>merge_Data\<close>. The formatting of a time number as a date string is external
  (\<^verbatim>\<open>datetime.strftime(num2date(...))\<close>) and a parameter.\<close>

definition merge_Data ::
  "(real \<Rightarrow> string) \<Rightarrow> SatData \<Rightarrow> SatData \<Rightarrow> string list option \<Rightarrow> error + SatData" where
  "merge_Data fmt satdata1 satdata2 keys =
     (let ks = (case keys of
                  None \<Rightarrow> remdups (filter (\<lambda>k. k \<in> set (vars satdata2)) (vars satdata1))
                | Some l \<Rightarrow> l)
      in case filter (\<lambda>k. k \<notin> set (vars satdata2)) ks of
           k # rest \<Rightarrow>
             Inl (Exception (''Dataset1 contains key ('' @ k @ '') not available in Dataset2!''))
         | [] \<Rightarrow>
             (case SamplingRate (h satdata1) of
                None \<Rightarrow> Inl TypeError
              | Some rate \<Rightarrow>
                  (let timestep = merge_timestep rate in
                   bind_sum (getitem satdata1 ''time'') (\<lambda>t1.
                   bind_sum (getitem satdata2 ''time'') (\<lambda>t2.
                   if t1 = [] \<or> t2 = [] then Inl IndexError
                   else
                     (let new_time = merge_new_time (last t1) (last t2) timestep in
                      bind_sum (sequence_sum
                         (map (\<lambda>k. bind_sum (getitem satdata2 k) (\<lambda>f2.
                                    bind_sum (np_interp new_time t2 f2) (\<lambda>int_var.
                                    bind_sum (getitem satdata1 k) (\<lambda>f1.
                                      Inr (k, f1 @ int_var)))))
                            ks)) (\<lambda>cols.
                      (case (source satdata1, source satdata2) of
                         (Some n1, Some n2) \<Rightarrow>
                           bind_sum (SatData_init
                              (fold (\<lambda>kv acc. dict_set acc (fst kv) (snd kv)) cols
                                 [(''time'', t1 @ new_time)])
                              (Some (n1 @ ''+'' @ n2)) None) (\<lambda>MergedData.
                           if new_time = [] then Inl IndexError
                           else Inr (MergedData\<lparr>h := (h MergedData)
                                  \<lparr>DataSource :=
                                     DataSource (h satdata1) @ '' ('' @ fmt (hd t1) @ '' - ''
                                       @ fmt (last t1) @ '') & '' @ DataSource (h satdata2)
                                       @ '' ('' @ fmt (hd new_time) @ '' - ''
                                       @ fmt (last new_time) @ '')'',
                                   SamplingRate := Some timestep,
                                   ReferenceFrame := ReferenceFrame (h satdata1),
                                   Instruments := Instruments (h satdata1) @ Instruments (h satdata2),
                                   FileVersion :=
                                     dict_merge (FileVersion (h satdata1))
                                       (FileVersion (h satdata2))\<rparr>\<rparr>))
                       | other \<Rightarrow> Inl TypeError))))))))"

text \<open>The continuation axis in the specification's words: the points after the last sample
  of the first data set, one time step apart, up to the last sample of the second.\<close>

definition spec_continuation :: "real \<Rightarrow> real \<Rightarrow> real \<Rightarrow> real list" where
  "spec_continuation t1_last t2_last timestep =
     map (\<lambda>k. t1_last + real k * timestep) [1..<nat \<lfloor>(t2_last - t1_last) / timestep\<rfloor> + 1]"

text \<open>Example inputs of a merge: daily data for days 0 to 2 and for days 2 to 7.\<close>

definition example_first :: SatData where
  "example_first =
     \<lparr>data = [0, 1, 2] # [400, 410, 420] # replicate 16 (replicate 3 0),
      state = replicate 3 None,
      source = Some ''A'',
      h = empty_header\<lparr>SamplingRate := Some 1\<rparr>,
      pos = None,
      vars = [''speed'']\<rparr>"

definition example_second :: SatData where
  "example_second =
     \<lparr>data = [2, 3, 4, 5, 6, 7] # [420, 430, 440, 450, 460, 470] # replicate 16 (replicate 6 0),
      state = replicate 6 None,
      source = Some ''B'',
      h = empty_header\<lparr>SamplingRate := Some 1\<rparr>,
      pos = None,
      vars = [''speed'']\<rparr>"

section \<open>Propagation to L1 (predstorm/data.py)\<close>

text \<open>Log records of the module's logger, kept where a method's contract speaks of them.\<close>

datatype log_record = Info string | Warning string

text \<open>The constants \<^verbatim>\<open>AU\<close> and \<^verbatim>\<open>dist_to_L1\<close> that the module imports from
  \<^verbatim>\<open>predstorm.config.constants\<close>; the ephemeris (heliosat) is external: the trajectory of
  the Earth and of a named satellite.\<close>

record constants =
  AU :: real
  dist_to_L1 :: real

text \<open>Elementwise numpy arithmetic on one-dimensional arrays, with the broadcasting of a
  length-1 array.\<close>

definition np_binop :: "(real \<Rightarrow> real \<Rightarrow> real) \<Rightarrow> real list \<Rightarrow> real list \<Rightarrow> error + real list" where
  "np_binop f xs ys =
     (if length xs = length ys then Inr (map2 f xs ys)
      else if length ys = 1 then Inr (map (\<lambda>x. f x (hd ys)) xs)
      else if length xs = 1 then Inr (map (\<lambda>y. f (hd xs) y) ys)
      else Inl (ValueError ''operands could not be broadcast together''))"

text \<open>\<^verbatim>\<open>np.arctan2\<close> and \<^verbatim>\<open>cart2sphere\<close>, which returns \<open>(r, theta, phi)\<close>.\<close>

definition np_arctan2 :: "real \<Rightarrow> real \<Rightarrow> real" where
  "np_arctan2 y x =
     (if 0 < x then arctan (y / x)
      else if x < 0 then (if 0 \<le> y then arctan (y / x) + pi else arctan (y / x) - pi)
      else if 0 < y then pi / 2
      else if y < 0 then - pi / 2
      else 0)"

definition cart2sphere :: "real \<Rightarrow> real \<Rightarrow> real \<Rightarrow> vec3" where
  "cart2sphere x y z =
     (sqrt (x ^ 2 + y ^ 2 + z ^ 2), np_arctan2 z (sqrt (x ^ 2 + y ^ 2)), np_arctan2 y x)"

text \<open>\<^verbatim>\<open>get_l1_position\<close> for a list of times.\<close>

definition get_l1_position ::
  "trajectory \<Rightarrow> constants \<Rightarrow> real list \<Rightarrow> string \<Rightarrow> string \<Rightarrow> string \<Rightarrow> error + PositionData" where
  "get_l1_position earth consts tms units refframe observer =
     (let Earth_traj = earth tms refframe units observer;
          earth_r = map fst3 Earth_traj;
          elon = map snd3 Earth_traj;
          elat = map thd3 Earth_traj;
          l1_r = map (\<lambda>r. r - dist_to_L1 consts / AU consts) earth_r
      in bind_sum (PositionData_init [l1_r, elon, elat] ''rlonlat'' None) (\<lambda>L1Pos.
           Inr (L1Pos\<lparr>ph := (ph L1Pos)\<lparr>Units := units\<rparr>\<rparr>)))"

definition source_name :: "SatData \<Rightarrow> string" where
  "source_name d = (case source d of None \<Rightarrow> ''None'' | Some s \<Rightarrow> s)"

text \<open>\<^verbatim>\<open>SatData.load_positions\<close>. The trajectory comes from the header's
  \<^verbatim>\<open>HeliosatObject\<close>; a header without that key raises \<^verbatim>\<open>KeyError\<close>.\<close>

definition load_positions ::
  "constants \<Rightarrow> SatData \<Rightarrow> string \<Rightarrow> string \<Rightarrow> string \<Rightarrow> bool \<Rightarrow> bool
     \<Rightarrow> log_record list \<times> (error + SatData)" where
  "load_positions consts d refframe units observer rlonlat l1_corr =
     ([Info (''load_positions: Loading position data into '' @ source_name d @ '' data'')],
      bind_sum (getitem d ''time'') (\<lambda>tm.
      case HeliosatObject (h d) of
        None \<Rightarrow> Inl KeyError
      | Some trajectory \<Rightarrow>
          (let traj = trajectory tm refframe units observer;
               posx = map fst3 traj; posy = map snd3 traj; posz = map thd3 traj
           in bind_sum
                (if l1_corr then
                   (if units = ''AU'' then Inr (map (\<lambda>x. x - dist_to_L1 consts / AU consts) posx)
                    else if units = ''m'' then Inr (map (\<lambda>x. x - dist_to_L1 consts / 1000) posx)
                    else if units = ''km'' then Inr (map (\<lambda>x. x - dist_to_L1 consts) posx)
                    else Inl UnboundLocalError)
                 else Inr posx) (\<lambda>posx.
              bind_sum
                (if rlonlat then
                   (let sph = map (\<lambda>(x, y, z). cart2sphere x y z) (zip posx (zip posy posz))
                    in PositionData_init [map fst3 sph, map thd3 sph, map snd3 sph] ''rlonlat'' None)
                 else PositionData_init [posx, posy, posz] ''xyz'' None) (\<lambda>Positions.
              Inr (d\<lparr>pos := Some (Positions\<lparr>ph := (ph Positions)
                        \<lparr>Units := units, PosReferenceFrame := refframe,
                         Observer := Some observer\<rparr>\<rparr>)\<rparr>))))))"

text \<open>Rounding to a number of decimals (\<^verbatim>\<open>np.round\<close>, Python's \<^verbatim>\<open>round\<close>): ties go to the
  even neighbour.\<close>

definition round_half_even :: "real \<Rightarrow> int" where
  "round_half_even y =
     (let f = \<lfloor>y\<rfloor>; r = y - of_int f
      in if r < 1 / 2 then f else if 1 / 2 < r then f + 1 else if even f then f else f + 1)"

definition np_round :: "real \<Rightarrow> nat \<Rightarrow> real" where
  "np_round x n = of_int (round_half_even (x * 10 ^ n)) / 10 ^ n"

text \<open>\<^verbatim>\<open>get_time_lag_wrt_earth\<close> for a given timestamp.\<close>

definition get_time_lag_wrt_earth ::
  "(string \<Rightarrow> trajectory) \<Rightarrow> constants \<Rightarrow> real \<Rightarrow> string \<Rightarrow> real \<Rightarrow> real
     \<Rightarrow> error + (real \<times> real)" where
  "get_time_lag_wrt_earth heliosat consts timestamp satname v_mean sun_syn =
     (if satname \<noteq> ''STEREO-A'' \<and> satname \<noteq> ''STEREO-B''
      then Inl (Exception ''Not a valid satellite name to find position!'')
      else
        (case heliosat satname [timestamp] ''HEEQ'' ''AU'' ''SUN'' of
           [] \<Rightarrow> Inl IndexError
         | (posx, posy, posz) # rest \<Rightarrow>
             (case cart2sphere posx posy posz of (sat_r, lat_heeq, lon_heeq) \<Rightarrow>
                if sun_syn = 0 then Inl ZeroDivisionError
                else if v_mean = 0 then Inl NonFinite
                else
                  (let earth_r = 1;
                       lag_l1 = \<bar>lon_heeq * 180 / pi\<bar> / (360 / sun_syn);
                       diff_r_deg = - (360 / (sun_syn * 86400)) * ((sat_r - earth_r) * AU consts)
                                      / v_mean;
                       lag_diff_r = np_round (diff_r_deg / (360 / sun_syn)) 2
                   in Inr (lag_l1, lag_diff_r)))))"

text \<open>The new time axis of \<^verbatim>\<open>shift_time_to_L1(method='new')\<close>, for an object with positions.
  A zero speed gives an infinite or NaN lag in numpy; the model reports \<open>NonFinite\<close> when
  the loop has run without an exception.\<close>

definition shifted_time_new ::
  "trajectory \<Rightarrow> constants \<Rightarrow> SatData \<Rightarrow> real \<Rightarrow> error + (real list \<times> real list)" where
  "shifted_time_new earth consts d sun_syn =
     (case pos d of
        None \<Rightarrow> Inl AttributeError
      | Some p \<Rightarrow>
          bind_sum (getitem d ''time'') (\<lambda>tm.
          bind_sum (get_l1_position earth consts tm (Units (ph p)) (PosReferenceFrame (ph p)) ''SUN'')
            (\<lambda>L1Pos.
          bind_sum (pos_getitem L1Pos ''r'') (\<lambda>L1_r.
          bind_sum (pos_getitem p ''lon'') (\<lambda>lon.
          if sun_syn = 0 then Inl ZeroDivisionError
          else
            (let timelag_L1 = map (\<lambda>l. \<bar>l * 180 / pi\<bar> / (360 / sun_syn)) lon in
             bind_sum (sequence_sum
                (map (\<lambda>i. bind_sum (pos_getitem p ''r'') (\<lambda>r.
                           if \<not> i < length r then Inl IndexError
                           else
                             bind_sum (getitem d ''speed'') (\<lambda>speed.
                               if \<not> i < length speed then Inl IndexError
                               else if speed ! i = 0 then Inr None
                               else
                                 (let diff_r_deg = (- 360 / (sun_syn * 86400)) * (r ! i - L1_r ! i)
                                                     / speed ! i
                                  in Inr (Some (np_round (diff_r_deg / (360 / sun_syn)) 3))))))
                   [0..<length L1_r])) (\<lambda>lags.
             if None \<in> set lags then Inl NonFinite
             else
               bind_sum (np_binop (+) tm timelag_L1) (\<lambda>t1.
               bind_sum (np_binop (+) t1 (map the lags)) (\<lambda>t2.
               bind_sum (np_binop (+) timelag_L1 (map the lags)) (\<lambda>lag_sum.
                 Inr (t2, lag_sum)))))))))))"

text \<open>\<^verbatim>\<open>SatData.shift_time_to_L1\<close>. With \<^verbatim>\<open>method='new'\<close> an object without positions
  logs a warning and loads them with the defaults of \<^verbatim>\<open>load_positions\<close>; the final log
  record formats the first and the last lag, which raises on an empty array. The text of
  that record is abbreviated.\<close>

definition shift_time_to_L1 ::
  "(string \<Rightarrow> trajectory) \<Rightarrow> trajectory \<Rightarrow> constants \<Rightarrow> SatData \<Rightarrow> real \<Rightarrow> string
     \<Rightarrow> log_record list \<times> (error + SatData)" where
  "shift_time_to_L1 heliosat earth consts d sun_syn method =
     (if method = ''old'' then
        (case bind_sum (getitem d ''time'') (\<lambda>tm.
              if tm = [] then Inl IndexError
              else
                bind_sum (getitem d ''speed'') (\<lambda>speed.
                if speed = [] then Inl NonFinite
                else get_time_lag_wrt_earth heliosat consts (last tm) (source_name d)
                       (sum_list speed / real (length speed)) sun_syn)) of
           Inl e \<Rightarrow> ([], Inl e)
         | Inr (lag_l1, lag_r) \<Rightarrow>
             ([Info ''shift_time_to_L1: Shifting time''],
              assign_row d ''time'' (map (\<lambda>t. t + lag_l1 + lag_r) (data d ! 0))))
      else if method = ''new'' then
        (let loaded = (case pos d of
                         None \<Rightarrow>
                           (let lp = load_positions consts d ''HEEQ'' ''AU'' ''SUN'' True False
                            in (Warning
                                  ''Loading position data (SatData.load_positions()) for shift_time_to_L1()!''
                                  # fst lp, snd lp))
                       | Some p \<Rightarrow> ([], Inr d))
         in case snd loaded of
              Inl e \<Rightarrow> (fst loaded, Inl e)
            | Inr d1 \<Rightarrow>
                (case shifted_time_new earth consts d1 sun_syn of
                   Inl e \<Rightarrow> (fst loaded, Inl e)
                 | Inr (t2, lag_sum) \<Rightarrow>
                     (case assign_row d1 ''time'' t2 of
                        Inl e \<Rightarrow> (fst loaded, Inl e)
                      | Inr d2 \<Rightarrow>
                          if lag_sum = [] then (fst loaded, Inl IndexError)
                          else (fst loaded @ [Info ''shift_time_to_L1: Shifting time''], Inr d2))))
      else ([], Inr d))"

text \<open>The variables \<^verbatim>\<open>shift_wind_to_L1\<close> scales.\<close>

definition shift_var_list :: "string list" where
  "shift_var_list = [''btot'', ''br'', ''bt'', ''bn'', ''bx'', ''by'', ''bz'', ''density'']"

text \<open>\<^verbatim>\<open>corr_factor = (L1Pos['r']/self.pos['r'])**-2\<close>. A zero distance makes numpy divide by
  zero; the model reports \<open>NonFinite\<close>.\<close>

definition corr_factor :: "real list \<Rightarrow> real list \<Rightarrow> error + real list" where
  "corr_factor l1_r r =
     bind_sum (np_binop (/) l1_r r) (\<lambda>q.
       if 0 \<in> set r \<or> 0 \<in> set q then Inl NonFinite
       else Inr (map (\<lambda>x. 1 / x ^ 2) q))"

text \<open>A loop whose body can raise: \<^verbatim>\<open>for x in xs: s = body(x, s)\<close>.\<close>

fun fold_sum :: "('a \<Rightarrow> 's \<Rightarrow> 'e + 's) \<Rightarrow> 'a list \<Rightarrow> 's \<Rightarrow> 'e + 's" where
  "fold_sum f [] s = Inr s"
| "fold_sum f (x # xs) s = (case f x s of Inl e \<Rightarrow> Inl e | Inr s' \<Rightarrow> fold_sum f xs s')"

text \<open>The body of the loop of \<^verbatim>\<open>shift_wind_to_L1\<close>:
  \<^verbatim>\<open>self[var] = self[var] * corr_factor\<close>.\<close>

definition scale_step :: "real list \<Rightarrow> string \<Rightarrow> SatData \<Rightarrow> error + SatData" where
  "scale_step cf var s =
     bind_sum (getitem s var) (\<lambda>row. bind_sum (np_binop (*) row cf) (\<lambda>scaled. setitem s var scaled))"

text \<open>\<^verbatim>\<open>SatData.shift_wind_to_L1\<close>. The method reads \<^verbatim>\<open>self.pos.h\<close> without a check for
  \<^verbatim>\<open>self.pos == None\<close>.\<close>

definition shift_wind_to_L1 ::
  "trajectory \<Rightarrow> constants \<Rightarrow> SatData \<Rightarrow> log_record list \<times> (error + SatData)" where
  "shift_wind_to_L1 earth consts d =
     (case (case pos d of
              None \<Rightarrow> Inl AttributeError
            | Some p \<Rightarrow>
                bind_sum (getitem d ''time'') (\<lambda>tm.
                bind_sum (get_l1_position earth consts tm (Units (ph p)) (PosReferenceFrame (ph p))
                            ''SUN'') (\<lambda>L1Pos.
                bind_sum (pos_getitem L1Pos ''r'') (\<lambda>l1_r.
                bind_sum (pos_getitem p ''r'') (\<lambda>r.
                bind_sum (corr_factor l1_r r) (\<lambda>cf.
                  fold_sum (scale_step cf)
                    (filter (\<lambda>v. v \<in> set (vars d)) shift_var_list) d)))))) of
        Inl e \<Rightarrow> ([], Inl e)
      | Inr d' \<Rightarrow>
          ([Info ''shift_wind_to_L1: Extrapolated B and density values to L1 distance''], Inr d'))"

text \<open>Example inputs of the radial correction: a monitor at 2 AU with density 10 at two
  samples, the Earth at 1.01 AU and L1 0.01 AU sunward of it.\<close>

definition example_constants :: constants where
  "example_constants = \<lparr>AU = 149597870.7, dist_to_L1 = 1495978.707\<rparr>"

definition example_earth :: trajectory where
  "example_earth tms refframe units observer = map (\<lambda>t. (1.01, 0, 0)) tms"

definition example_monitor :: SatData where
  "example_monitor =
     \<lparr>data = [[730120.5, 730120.75], [400, 500], [0, 0], [10, 10]] @ replicate 5 [0, 0]
              @ [[5, 6]] @ replicate 8 [0, 0],
      state = [None, None],
      source = Some ''STEREO-A'',
      h = empty_header,
      pos = Some \<lparr>positions = [[2, 2], [0, 0], [0, 0]],
                  ph = \<lparr>PosReferenceFrame = ''HEEQ'', CoordinateSystem = ''rlonlat'',
                        Units = ''AU'', Object = [], Observer = Some ''SUN''\<rparr>,
                  coors = [''r'', ''lon'', ''lat'']\<rparr>,
      vars = [''speed'', ''density'', ''btot'']\<rparr>"

text \<open>The same configuration with the positions in km, for an ephemeris that answers in the
  unit it is asked for: the Earth at 1.01 AU is at 151093849.407 km, L1 (1495978.707 km
  sunward of it) at 149597870.7 km, and the monitor at twice that, 299195741.4 km. The
  header's \<^verbatim>\<open>HeliosatObject\<close> is the Earth, for \<^verbatim>\<open>load_positions\<close> with \<^verbatim>\<open>l1_corr\<close>.\<close>

definition example_earth_km :: trajectory where
  "example_earth_km tms refframe units observer =
     map (\<lambda>t. if units = ''km'' then (151093849.407, 0, 0) else (1.01, 0, 0)) tms"

definition example_monitor_km :: SatData where
  "example_monitor_km =
     \<lparr>data = [[730120.5, 730120.75], [400, 500], [0, 0], [10, 10]] @ replicate 5 [0, 0]
              @ [[5, 6]] @ replicate 8 [0, 0],
      state = [None, None],
      source = Some ''STEREO-A'',
      h = empty_header\<lparr>HeliosatObject := Some example_earth_km\<rparr>,
      pos = Some \<lparr>positions = [[299195741.4, 299195741.4], [0, 0], [0, 0]],
                  ph = \<lparr>PosReferenceFrame = ''HEEQ'', CoordinateSystem = ''rlonlat'',
                        Units = ''km'', Object = [], Observer = Some ''SUN''\<rparr>,
                  coors = [''r'', ''lon'', ''lat'']\<rparr>,
      vars = [''speed'', ''density'', ''btot'']\<rparr>"

section \<open>Proofs about the sliding window\<close>

subsection \<open>Auxiliary facts\<close>

lemma sequence_sum_Inr_length:
  "sequence_sum xs = Inr vs \<Longrightarrow> length vs = length xs"
  by (induction xs arbitrary: vs) (auto split: sum.splits)

lemma sequence_sum_Inr_nth:
  "sequence_sum xs = Inr vs \<Longrightarrow> i < length xs \<Longrightarrow> xs ! i = Inr (vs ! i)"
proof (induction xs arbitrary: vs i)
  case Nil
  then show ?case by simp
next
  case (Cons x xs)
  then show ?case by (cases i) (auto split: sum.splits)
qed

lemma sequence_sum_all_Inr:
  "(\<And>x. x \<in> set xs \<Longrightarrow> \<exists>v. x = Inr v) \<Longrightarrow> \<exists>vs. sequence_sum xs = Inr vs"
proof (induction xs)
  case Nil
  then show ?case by simp
next
  case (Cons x xs)
  then obtain v where "x = Inr v" by auto
  moreover from Cons obtain vs where "sequence_sum xs = Inr vs" by auto
  ultimately show ?case by simp
qed

lemma np_sum_finite: "np_sum (map Some xs) = Some (sum_list xs)"
  by (induction xs) (simp_all add: np_sum_def fl_add_def)

lemma np_sum_None_iff: "np_sum xs = None \<longleftrightarrow> None \<in> set xs"
  by (induction xs) (auto simp: np_sum_def fl_add_def split: option.splits)

lemma map2_fl_sub_finite:
  "map2 fl_sub (map Some xs) (map Some ys) = map Some (map2 (-) xs ys)"
  by (induction xs arbitrary: ys) (case_tac ys; simp add: fl_sub_def)+

lemma map_fl_sq_finite: "map fl_sq (map Some xs) = map Some (map (\<lambda>x. x ^ 2) xs)"
  by (simp add: fl_sq_def)

lemma sum_list_sq_diff:
  "length xs = length ys \<Longrightarrow>
   sum_list (map (\<lambda>x. x ^ 2) (map2 (-) xs ys)) = (\<Sum>k<length xs. (xs ! k - ys ! k) ^ 2 :: real)"
proof -
  assume len: "length xs = length ys"
  have "sum_list (map (\<lambda>x. x ^ 2) (map2 (-) xs ys))
        = (\<Sum>k = 0..<length xs. (map (\<lambda>x. x ^ 2) (map2 (-) xs ys)) ! k)"
    using len by (simp add: sum_list_sum_nth)
  also have "\<dots> = (\<Sum>k = 0..<length xs. (xs ! k - ys ! k) ^ 2)"
    using len by (intro sum.cong) simp_all
  finally show ?thesis by (simp add: atLeast0LessThan)
qed

lemma dist_count_at_finite:
  assumes "length nw = length win" and "nw \<noteq> []"
  shows "dist_count_at (map Some nw) (map Some win)
         = Inr (Some (sqrt (\<Sum>k<length nw. (nw ! k - win ! k) ^ 2) / real (length nw)))"
proof -
  have sub: "np_subtract (map Some nw) (map Some win) = Inr (map Some (map2 (-) nw win))"
    using assms by (simp add: np_subtract_def map2_fl_sub_finite)
  have "np_sum (map fl_sq (map Some (map2 (-) nw win)))
        = Some (\<Sum>k<length nw. (nw ! k - win ! k) ^ 2)"
    using assms(1) by (simp only: map_fl_sq_finite np_sum_finite sum_list_sq_diff)
  moreover have "0 \<le> (\<Sum>k<length nw. (nw ! k - win ! k) ^ 2)"
    by (intro sum_nonneg) simp
  ultimately show ?thesis
    using assms(2) by (simp add: dist_count_at_def sub fl_sqrt_def fl_div_size_def)
qed

lemma py_slice_nth:
  "a + n \<le> length xs \<Longrightarrow> k < n \<Longrightarrow> py_slice xs a (a + n) ! k = xs ! (a + k)"
  by (simp add: py_slice_def)

lemma py_slice_length:
  "a + n \<le> length xs \<Longrightarrow> length (py_slice xs a (a + n)) = n"
  by (simp add: py_slice_def)

lemma py_slice_map: "py_slice (map f xs) a b = map f (py_slice xs a b)"
  by (simp add: py_slice_def take_map drop_map)

lemma pvars_nth: "pvars ! pvar_index v = v"
  by (cases v) (simp_all add: pvars_def)

lemma pvar_index_less: "pvar_index v < length pvars"
  by (cases v) (simp_all add: pvars_def)

lemma sliding_window_entry:
  assumes "sliding_window now omni startindex deltat trainsize = Inr rows"
      and "i < trainsize"
  shows "dist_count_at (now v) (py_slice (omni v) (startindex + i) (startindex + i + deltat + 1))
         = Inr (dist_count v rows ! i)"
proof -
  have len: "length rows = trainsize"
    using sequence_sum_Inr_length [OF assms(1) [unfolded sliding_window_def]] by simp
  have "window_step now omni startindex deltat i = Inr (rows ! i)"
    using sequence_sum_Inr_nth [OF assms(1) [unfolded sliding_window_def], of i] assms(2)
    by simp
  then have row: "sequence_sum
        (map (\<lambda>v. dist_count_at (now v)
             (py_slice (omni v) (startindex + i) (startindex + i + deltat + 1))) pvars)
        = Inr (rows ! i)"
    by (simp add: window_step_def Let_def)
  have "map (\<lambda>v. dist_count_at (now v)
             (py_slice (omni v) (startindex + i) (startindex + i + deltat + 1))) pvars
          ! pvar_index v = Inr ((rows ! i) ! pvar_index v)"
    using sequence_sum_Inr_nth [OF row, of "pvar_index v"] pvar_index_less by simp
  then show ?thesis
    using len assms(2) pvar_index_less [of v] by (simp add: dist_count_def pvars_nth)
qed

lemma sqrt_4: "sqrt 4 = 2"
  by (rule real_sqrt_unique) simp_all

lemma sqrt_676: "sqrt 676 = 26"
  by (rule real_sqrt_unique) simp_all

lemma rms_example_rows:
  "sliding_window (\<lambda>_. map Some [0, 0, 0, 0]) (\<lambda>_. map Some [5, 2, 0, 0, 0]) 1 3 1
     = Inr [replicate 6 (Some (1 / 2))]"
  by (simp add: sliding_window_def window_step_def pvars_def dist_count_at_def np_subtract_def
      py_slice_def np_sum_def fl_sq_def fl_sub_def fl_add_def fl_sqrt_def fl_div_size_def
      eval_nat_numeral sqrt_4)

lemma rms_example_spec: "spec_rms_deviation [0, 0, 0, 0] (py_slice [5, 2, 0, 0, 0] 1 5) = 1"
  by (simp add: spec_rms_deviation_def py_slice_def eval_nat_numeral lessThan_Suc)

lemma nan_example_rows:
  "sliding_window (\<lambda>_. [Some 400, Some 410])
       (\<lambda>_. [Some 0, None, Some 376, Some 400, Some 410, Some 420, Some 430]) 1 1 3
     = Inr [replicate 6 None, replicate 6 (Some 13), replicate 6 (Some 0)]"
  by (simp add: sliding_window_def window_step_def pvars_def dist_count_at_def np_subtract_def
      py_slice_def np_sum_def fl_sq_def fl_sub_def fl_add_def fl_sqrt_def fl_div_size_def
      eval_nat_numeral upt_rec sqrt_676)

lemma nan_example_rank:
  "rank_var Speed (dist_count Speed [replicate 6 None, replicate 6 (Some 13), replicate 6 (Some 0)])
    = Inr (Some 0, 0)"
  by (simp add: rank_var_def dist_count_def np_nanmin_def np_argmin_def finite_values_def eval_nat_numeral)

lemma nan_example_valid_pairs:
  "spec_valid_pairs [Some 400, Some 410]
     (py_slice [Some 0, None, Some 376, Some 400, Some 410, Some 420, Some 430] 1 3)
   = [(Some 410, Some 376)]"
  by (simp add: spec_valid_pairs_def py_slice_def eval_nat_numeral)

lemma np_sum_sq_nonneg: "np_sum (map fl_sq ds) = Some s \<Longrightarrow> 0 \<le> s"
proof (induction ds arbitrary: s)
  case Nil
  then show ?case by (simp add: np_sum_def)
next
  case (Cons d ds)
  then show ?case
    by (auto simp: np_sum_def fl_add_def fl_sq_def split: option.splits)
qed

lemma map2_fl_sub_None_iff:
  "length xs = length ys \<Longrightarrow>
   None \<in> set (map fl_sq (map2 fl_sub xs ys)) \<longleftrightarrow> None \<in> set xs \<or> None \<in> set ys"
proof (induction xs ys rule: list_induct2)
  case Nil
  then show ?case by simp
next
  case (Cons x xs y ys)
  then show ?case
    by (cases x; cases y) (auto simp: fl_sq_def fl_sub_def)
qed

lemma dist_count_at_nan_iff:
  assumes "length now = length win" and "now \<noteq> []"
  shows "dist_count_at now win = Inr None \<longleftrightarrow> None \<in> set now \<or> None \<in> set win"
proof -
  let ?s = "np_sum (map fl_sq (map2 fl_sub now win))"
  have d: "dist_count_at now win = Inr (fl_div_size (fl_sqrt ?s) (length now))"
    using assms(1) by (simp add: dist_count_at_def np_subtract_def)
  have "fl_div_size (fl_sqrt ?s) (length now) = None \<longleftrightarrow> ?s = None"
  proof (cases ?s)
    case None
    then show ?thesis by (simp add: fl_sqrt_def fl_div_size_def)
  next
    case (Some s)
    with np_sum_sq_nonneg [OF Some] assms(2) show ?thesis
      by (simp add: fl_sqrt_def fl_div_size_def)
  qed
  then have "dist_count_at now win = Inr None \<longleftrightarrow> ?s = None"
    by (simp add: d)
  also have "\<dots> \<longleftrightarrow> None \<in> set (map fl_sq (map2 fl_sub now win))"
    by (rule np_sum_None_iff)
  also have "\<dots> \<longleftrightarrow> None \<in> set now \<or> None \<in> set win"
    by (rule map2_fl_sub_None_iff [OF assms(1)])
  finally show ?thesis .
qed

lemma finite_values_filter: "finite_values (filter (\<lambda>x. x \<noteq> None) ds) = finite_values ds"
  by (simp add: finite_values_def)

lemma np_nanmin_skips:
  "finite_values ds \<noteq> [] \<Longrightarrow> np_nanmin ds = np_min (filter (\<lambda>x. x \<noteq> None) ds)"
  by (auto simp: np_nanmin_def np_min_def finite_values_filter) (auto simp: finite_values_def)

lemma map_Some_the: "None \<notin> set xs \<Longrightarrow> map Some (map the xs) = xs"
  by (induction xs) auto

subsection \<open>The distance value of a window\<close>

text \<open>
  Claim C1, as amended. For every candidate start index \<open>i\<close> of the training range and
  each of the six variables, when the now window has \<open>deltat + 1\<close> samples and the
  historical window starting at \<open>startindex + i\<close> lies inside the training series, the
  distance value is the square root of the sum of the squared differences at matching
  offsets, divided by the window length: the window length divides the root, it is not
  under the root. The value is NaN when one of the two windows holds a NaN. Nothing is
  assumed of the samples of the training series outside the window.
\<close>

theorem dist_count_root_sum_squares_over_size:
  assumes "sliding_window now omni startindex deltat trainsize = Inr rows"
      and "i < trainsize"
      and "length (now v) = deltat + 1"
      and "startindex + i + deltat + 1 \<le> length (omni v)"
  shows "dist_count v rows ! i =
           (if None \<in> set (now v)
               \<or> None \<in> set (py_slice (omni v) (startindex + i) (startindex + i + deltat + 1))
            then None
            else Some (sqrt (\<Sum>k<deltat + 1.
                               (the (now v ! k) - the (omni v ! (startindex + i + k))) ^ 2)
                       / real (deltat + 1)))"
proof -
  let ?win = "py_slice (omni v) (startindex + i) (startindex + i + deltat + 1)"
  have lw: "length ?win = deltat + 1"
    using py_slice_length [of "startindex + i" "deltat + 1" "omni v"] assms(4)
    by (simp add: add.assoc)
  have nth: "\<And>k. k < deltat + 1 \<Longrightarrow> ?win ! k = omni v ! (startindex + i + k)"
    using py_slice_nth [of "startindex + i" "deltat + 1" "omni v"] assms(4)
    by (simp add: add.assoc)
  have ne: "now v \<noteq> []"
    using assms(3) by auto
  have entry: "dist_count_at (now v) ?win = Inr (dist_count v rows ! i)"
    by (rule sliding_window_entry [OF assms(1,2)])
  show ?thesis
  proof (cases "None \<in> set (now v) \<or> None \<in> set ?win")
    case True
    with dist_count_at_nan_iff [of "now v" ?win] lw assms(3) ne entry show ?thesis
      by simp
  next
    case False
    let ?nw = "map the (now v)" and ?w = "map the ?win"
    have fin: "map Some ?nw = now v" "map Some ?w = ?win"
      using False by (blast intro: map_Some_the)+
    have a: "dist_count_at (map Some ?nw) (map Some ?w)
          = Inr (Some (sqrt (\<Sum>k<length ?nw. (?nw ! k - ?w ! k) ^ 2) / real (length ?nw)))"
      by (rule dist_count_at_finite) (use assms(3) lw ne in auto)
    have b: "(\<Sum>k<deltat + 1. (?nw ! k - ?w ! k) ^ 2)
               = (\<Sum>k<deltat + 1. (the (now v ! k) - the (omni v ! (startindex + i + k))) ^ 2)"
    proof (intro sum.cong refl)
      fix k assume "k \<in> {..<deltat + 1}"
      then have k: "k < deltat + 1" by simp
      then have "?nw ! k = the (now v ! k)" "?w ! k = the (?win ! k)"
        using assms(3) lw by simp_all
      with nth [OF k] show "(?nw ! k - ?w ! k) ^ 2
                            = (the (now v ! k) - the (omni v ! (startindex + i + k))) ^ 2"
        by simp
    qed
    have c: "length ?nw = deltat + 1"
      using assms(3) by simp
    from a have "dist_count_at (now v) ?win
          = Inr (Some (sqrt (\<Sum>k<deltat + 1.
                               (the (now v ! k) - the (omni v ! (startindex + i + k))) ^ 2)
                       / real (deltat + 1)))"
      unfolding fin c b .
    with entry have "dist_count v rows ! i
          = Some (sqrt (\<Sum>k<deltat + 1.
                          (the (now v ! k) - the (omni v ! (startindex + i + k))) ^ 2)
                  / real (deltat + 1))"
      by simp
    with False show ?thesis
      by (simp only: if_False)
  qed
qed

text \<open>
  The theorem at a concrete input: the speed windows \<open>[400, 410]\<close> (now) against a
  training series with a NaN at index 1, three start indices from 1. The historical
  window of the second start index is \<open>[376, 400]\<close>, free of NaN, and its distance is
  \<open>sqrt (24\<^sup>2 + 10\<^sup>2) / 2 = 13\<close>.
\<close>

theorem dist_count_root_sum_squares_over_size_witness:
  "sliding_window (\<lambda>_. [Some 400, Some 410])
       (\<lambda>_. [Some 0, None, Some 376, Some 400, Some 410, Some 420, Some 430]) 1 1 3
     = Inr [replicate 6 None, replicate 6 (Some 13), replicate 6 (Some 0)]
   \<and> dist_count Speed [replicate 6 None, replicate 6 (Some 13), replicate 6 (Some 0)] ! 1
     = Some (sqrt ((400 - 376) ^ 2 + (410 - 400) ^ 2) / 2)"
  using dist_count_root_sum_squares_over_size
    [of "\<lambda>_. [Some 400, Some 410]"
        "\<lambda>_. [Some 0, None, Some 376, Some 400, Some 410, Some 420, Some 430]" 1 1 3
        "[replicate 6 None, replicate 6 (Some 13), replicate 6 (Some 0)]" 1 Speed]
    nan_example_rows
  by (simp add: py_slice_def eval_nat_numeral lessThan_Suc)

text \<open>
  Claim C1 as stated fails: for a now window of four zeros against the training window
  \<open>[2, 0, 0, 0]\<close> at start index 1 the loop stores \<open>sqrt 4 / 4 = 1/2\<close> for every
  variable, while the root-mean-square deviation of the two windows is \<open>sqrt (4 / 4) = 1\<close>.
\<close>

theorem dist_count_rms_counterexample:
  "sliding_window (\<lambda>_. map Some [0, 0, 0, 0]) (\<lambda>_. map Some [5, 2, 0, 0, 0]) 1 3 1
     = Inr [replicate 6 (Some (1 / 2))]
   \<and> spec_rms_deviation [0, 0, 0, 0] (py_slice [5, 2, 0, 0, 0] 1 5) = 1"
  using rms_example_rows rms_example_spec by simp

subsection \<open>NaN samples in a window\<close>

text \<open>
  Claim C9 says that NaN samples are excluded from the distance computation, or the window
  skipped, so that NaNs never poison the distance values used for ranking. The source
  takes the minimum distance with \<^verbatim>\<open>np.nanmin\<close>, ``because nan's might show up in
  dist\_count'', and the position of the best match with \<^verbatim>\<open>np.argmin\<close>, which does not
  skip NaN. For the speed windows \<open>[400, 410]\<close> (now) against a training series with a NaN
  at index 1, three start indices from 1: the first historical window \<open>[NaN, 376]\<close> keeps
  one valid pair of samples, yet its stored distance is NaN; the minimum distance reported
  is 0, that of the window at index 2, which equals the now window; the position returned
  is 0, the NaN window. The predicted wind is then \<open>[376, 400]\<close>, the samples that follow
  the NaN window, where the best match is followed by \<open>[410, 420]\<close>.
\<close>

theorem argmin_returns_nan_window:
  "sliding_window (\<lambda>_. [Some 400, Some 410])
       (\<lambda>_. [Some 0, None, Some 376, Some 400, Some 410, Some 420, Some 430]) 1 1 3
     = Inr [replicate 6 None, replicate 6 (Some 13), replicate 6 (Some 0)]
   \<and> spec_valid_pairs [Some 400, Some 410]
       (py_slice [Some 0, None, Some 376, Some 400, Some 410, Some 420, Some 430] 1 3)
     = [(Some 410, Some 376)]
   \<and> np_nanmin (dist_count Speed [replicate 6 None, replicate 6 (Some 13), replicate 6 (Some 0)])
     = Inr (Some 0)
   \<and> np_argmin (dist_count Speed [replicate 6 None, replicate 6 (Some 13), replicate 6 (Some 0)])
     = Inr 0
   \<and> rank_var Speed
       (dist_count Speed [replicate 6 None, replicate 6 (Some 13), replicate 6 (Some 0)])
     = Inr (Some 0, 0)
   \<and> predicted_wind [Some 0, None, Some 376, Some 400, Some 410, Some 420, Some 430] 1 1 0
     = [Some 376, Some 400]
   \<and> predicted_wind [Some 0, None, Some 376, Some 400, Some 410, Some 420, Some 430] 1 1 2
     = [Some 410, Some 420]"
  using nan_example_rows nan_example_rank nan_example_valid_pairs
  by (simp add: dist_count_def np_nanmin_def np_argmin_def finite_values_def predicted_wind_def
      py_slice_def eval_nat_numeral)

section \<open>Proofs about the containers and the frame conversions\<close>

subsection \<open>Rotations keep the length of a vector\<close>

lemma rot_plane:
  "(c * y + s * z)^2 + (- s * y + c * z)^2 = (s^2 + c^2) * (y^2 + z^2)" for c s y z :: real
  by (simp add: power2_eq_square algebra_simps)

lemma norm3_rot_x: "norm3 (mat_vec (rot_x a) v) = norm3 v"
proof (cases v)
  case (fields x y z)
  have "(cos a * y + sin a * z)^2 + (- sin a * y + cos a * z)^2 = y^2 + z^2"
    using rot_plane [of "cos a" y "sin a" z] by simp
  then show ?thesis
    by (simp add: fields norm3_def mat_vec_def rot_x_def dot3_def add.assoc)
qed

lemma norm3_rot_z: "norm3 (mat_vec (rot_z a) v) = norm3 v"
proof (cases v)
  case (fields x y z)
  have "(cos a * x + sin a * y)^2 + (- sin a * x + cos a * y)^2 = x^2 + y^2"
    using rot_plane [of "cos a" x "sin a" y] by simp
  then show ?thesis
    by (simp add: fields norm3_def mat_vec_def rot_z_def dot3_def)
qed

lemma mat_vec_mat_mul: "mat_vec (mat_mul m n) v = mat_vec m (mat_vec n v)"
  by (cases m; cases n; cases v)
     (auto simp: mat_vec_def mat_mul_def transpose3_def dot3_def algebra_simps)

lemma norm3_HEEQ_to_GSE_sample: "norm3 (HEEQ_to_GSE_sample mjd UT v) = norm3 v"
proof -
  obtain hx hy hz where hee: "mat_vec (HEEQ_to_HEE_matrix mjd UT) v = (hx, hy, hz)"
    by (cases "mat_vec (HEEQ_to_HEE_matrix mjd UT) v") auto
  have "norm3 (mat_vec (HEEQ_to_HEE_matrix mjd UT) v) = norm3 v"
    by (simp add: HEEQ_to_HEE_matrix_def Let_def mat_vec_mat_mul norm3_rot_z norm3_rot_x)
  then show ?thesis
    by (simp add: HEEQ_to_GSE_sample_def hee norm3_def)
qed

lemma norm3_GSE_to_GSM_sample:
  "GSE_to_GSM_sample mjd UT v = Some w \<Longrightarrow> norm3 w = norm3 v"
  by (auto simp: GSE_to_GSM_sample_def norm3_rot_x split: option.splits)

subsection \<open>The RTN basis is orthonormal\<close>

lemma dot3_self: "dot3 v v = fst3 v ^ 2 + snd3 v ^ 2 + thd3 v ^ 2"
  by (cases v) (simp add: dot3_def fst3_def snd3_def thd3_def power2_eq_square)

lemma norm3_sqrt_dot: "norm3 v = sqrt (dot3 v v)"
  by (cases v) (simp add: norm3_def dot3_def power2_eq_square)

lemma dot3_nonneg: "0 \<le> dot3 v v"
  by (simp add: dot3_self)

lemma norm3_zero_iff: "norm3 v = 0 \<longleftrightarrow> dot3 v v = 0"
  by (simp add: norm3_sqrt_dot dot3_nonneg)

lemma dot3_scale_left: "dot3 (scale3 k u) v = k * dot3 u v"
  by (cases u; cases v) (simp add: dot3_def scale3_def algebra_simps)

lemma dot3_scale_right: "dot3 u (scale3 k v) = k * dot3 u v"
  by (cases u; cases v) (simp add: dot3_def scale3_def algebra_simps)

lemma dot3_commute: "dot3 u v = dot3 v u"
  by (cases u; cases v) (simp add: dot3_def algebra_simps)

lemma dot3_cross_left: "dot3 (cross3 u v) u = 0"
  by (cases u; cases v) (simp add: dot3_def cross3_def algebra_simps)

lemma dot3_cross_right: "dot3 (cross3 u v) v = 0"
  by (cases u; cases v) (simp add: dot3_def cross3_def algebra_simps)

lemma unit_normalised:
  assumes "norm3 w \<noteq> 0"
  shows "dot3 (scale3 (1 / norm3 w) w) (scale3 (1 / norm3 w) w) = 1"
proof -
  have pos: "0 < dot3 w w"
    using assms dot3_nonneg [of w] by (auto simp: norm3_zero_iff less_le)
  have "norm3 w * norm3 w = dot3 w w"
    using dot3_nonneg [of w] by (simp add: norm3_sqrt_dot)
  then have "1 / norm3 w * (1 / norm3 w * dot3 w w) = 1"
    using pos by simp
  then show ?thesis
    by (simp only: dot3_scale_left dot3_scale_right)
qed

lemma orth_cross_snd: "dot3 X (scale3 k (cross3 u X)) = 0"
  by (simp add: dot3_scale_right dot3_commute [of X] dot3_cross_right)

lemma orth_cross_fst: "dot3 X (scale3 k (cross3 X u)) = 0"
  by (simp add: dot3_scale_right dot3_commute [of X] dot3_cross_left)

lemma lagrange3:
  "dot3 (cross3 u v) (cross3 u v) = dot3 u u * dot3 v v - (dot3 u v) ^ 2"
  by (cases u; cases v) (simp add: dot3_def cross3_def power2_eq_square algebra_simps)

lemma dot3_combination:
  "dot3 (add3 (add3 (scale3 a X) (scale3 b Y)) (scale3 c Z))
        (add3 (add3 (scale3 a X) (scale3 b Y)) (scale3 c Z))
   = a ^ 2 * dot3 X X + b ^ 2 * dot3 Y Y + c ^ 2 * dot3 Z Z
     + 2 * a * b * dot3 X Y + 2 * a * c * dot3 X Z + 2 * b * c * dot3 Y Z"
  by (cases X; cases Y; cases Z)
     (simp add: dot3_def add3_def scale3_def power2_eq_square algebra_simps)

lemma norm3_orthonormal_combination:
  assumes "dot3 X X = 1" "dot3 Y Y = 1" "dot3 Z Z = 1"
      and "dot3 X Y = 0" "dot3 X Z = 0" "dot3 Y Z = 0"
  shows "norm3 (add3 (add3 (scale3 a X) (scale3 b Y)) (scale3 c Z)) = norm3 (a, b, c)"
proof -
  have "dot3 (add3 (add3 (scale3 a X) (scale3 b Y)) (scale3 c Z))
             (add3 (add3 (scale3 a X) (scale3 b Y)) (scale3 c Z)) = a ^ 2 + b ^ 2 + c ^ 2"
    by (simp add: dot3_combination assms)
  then show ?thesis
    by (simp add: norm3_sqrt_dot) (simp add: dot3_def power2_eq_square)
qed

lemma dot3_axes: "(dot3 v (1, 0, 0), dot3 v (0, 1, 0), dot3 v (0, 0, 1)) = v"
  by (cases v) (simp add: dot3_def)

lemma norm3_RTN_to_HEEQ_sample:
  assumes "RTN_to_HEEQ_sample p b = Some v"
  shows "norm3 v = norm3 b"
proof -
  let ?X = "scale3 (1 / norm3 p) p"
  let ?cy = "cross3 (0, 0, 1) ?X"
  let ?Y = "scale3 (1 / norm3 ?cy) ?cy"
  let ?cz = "cross3 ?X ?Y"
  let ?Z = "scale3 (1 / norm3 ?cz) ?cz"
  from assms have n1: "norm3 p \<noteq> 0" and n2: "norm3 ?cy \<noteq> 0" and n3: "norm3 ?cz \<noteq> 0"
    by (auto simp: RTN_to_HEEQ_sample_def Let_def split: if_splits)
  from assms n1 n2 n3
  have v: "v = add3 (add3 (scale3 (fst3 b) ?X) (scale3 (snd3 b) ?Y)) (scale3 (thd3 b) ?Z)"
    by (simp add: RTN_to_HEEQ_sample_def Let_def dot3_axes)
  have "norm3 v = norm3 (fst3 b, snd3 b, thd3 b)"
    unfolding v
  proof (rule norm3_orthonormal_combination)
    show "dot3 ?X ?X = 1" by (rule unit_normalised [OF n1])
    show "dot3 ?Y ?Y = 1" by (rule unit_normalised [OF n2])
    show "dot3 ?Z ?Z = 1" by (rule unit_normalised [OF n3])
    show "dot3 ?X ?Y = 0" by (rule orth_cross_snd)
    show "dot3 ?X ?Z = 0" by (rule orth_cross_fst)
    show "dot3 ?Y ?Z = 0" by (rule orth_cross_snd)
  qed
  then show ?thesis
    by (cases b) (simp add: fst3_def snd3_def thd3_def)
qed

lemma RTN_to_HEEQ_sample_defined:
  assumes "fst3 p \<noteq> 0 \<or> snd3 p \<noteq> 0"
  shows "\<exists>v. RTN_to_HEEQ_sample p b = Some v"
proof -
  let ?X = "scale3 (1 / norm3 p) p"
  let ?cy = "cross3 (0, 0, 1) ?X"
  let ?Y = "scale3 (1 / norm3 ?cy) ?cy"
  let ?cz = "cross3 ?X ?Y"
  obtain x y z where p: "p = (x, y, z)" by (cases p) auto
  from assms have xy: "0 < x ^ 2 + y ^ 2"
    by (auto simp: p fst3_def snd3_def sum_power2_gt_zero_iff)
  have "0 < x ^ 2 + y ^ 2 + z ^ 2"
    using xy by (simp add: add_pos_nonneg)
  then have n1: "norm3 p \<noteq> 0"
    by (simp add: p norm3_def)
  have "dot3 ?cy ?cy = (x ^ 2 + y ^ 2) / (norm3 p) ^ 2"
    by (simp add: p cross3_def scale3_def dot3_def power2_eq_square add_divide_distrib)
  then have "0 < dot3 ?cy ?cy"
    using xy n1 by simp
  then have n2: "norm3 ?cy \<noteq> 0"
    by (simp add: norm3_zero_iff)
  have X1: "dot3 ?X ?X = 1" by (rule unit_normalised [OF n1])
  have Y1: "dot3 ?Y ?Y = 1" by (rule unit_normalised [OF n2])
  have XY: "dot3 ?X ?Y = 0" by (rule orth_cross_snd)
  have "dot3 ?cz ?cz = 1"
    by (simp only: lagrange3 X1 Y1 XY) simp
  then have n3: "norm3 ?cz \<noteq> 0"
    by (simp add: norm3_zero_iff)
  show ?thesis
    using n1 n2 n3 by (simp add: RTN_to_HEEQ_sample_def Let_def)
qed

subsection \<open>Reading and writing rows\<close>

lemma bind_sum_Inr [simp]: "bind_sum (Inr x) f = f x"
  by (simp add: bind_sum_def)

lemma bind_sum_Inl [simp]: "bind_sum (Inl e) f = Inl e"
  by (simp add: bind_sum_def)

lemma bind_sum_eq_Inr: "bind_sum m f = Inr y \<longleftrightarrow> (\<exists>x. m = Inr x \<and> f x = Inr y)"
  by (cases m) simp_all

lemma key_index_values:
  "key_index ''time'' = 0" "key_index ''speed'' = 1" "key_index ''speedx'' = 2"
  "key_index ''density'' = 3" "key_index ''temp'' = 4" "key_index ''pdyn'' = 5"
  "key_index ''bx'' = 6" "key_index ''by'' = 7" "key_index ''bz'' = 8" "key_index ''btot'' = 9"
  "key_index ''br'' = 10" "key_index ''bt'' = 11" "key_index ''bn'' = 12"
  by (simp_all add: key_index_def default_keys_def)

lemma default_keys_mem:
  "''time'' \<in> set default_keys" "''bx'' \<in> set default_keys" "''by'' \<in> set default_keys"
  "''bz'' \<in> set default_keys" "''br'' \<in> set default_keys" "''bt'' \<in> set default_keys"
  "''bn'' \<in> set default_keys" "''btot'' \<in> set default_keys" "''density'' \<in> set default_keys"
  "''speed'' \<in> set default_keys" "''speedx'' \<in> set default_keys"
  by (simp_all add: default_keys_def)

lemma length_default_keys: "length default_keys = 18"
  by (simp add: default_keys_def)

lemma first_index_less: "x \<in> set xs \<Longrightarrow> first_index (\<lambda>k. k = x) xs < length xs"
  by (induction xs) auto

lemma first_index_nth: "x \<in> set xs \<Longrightarrow> xs ! first_index (\<lambda>k. k = x) xs = x"
  by (induction xs) auto

lemma key_index_less: "k \<in> set default_keys \<Longrightarrow> key_index k < length default_keys"
  by (simp add: key_index_def first_index_less)

lemma getitem_time: "getitem d ''time'' = Inr (data d ! 0)"
  by (simp add: getitem_def default_keys_mem key_index_values)

lemma getitem_active:
  "k \<in> set (vars d) \<Longrightarrow> k \<in> set default_keys \<Longrightarrow> getitem d k = Inr (data d ! key_index k)"
  by (simp add: getitem_def)

lemma wf_row_length:
  "wf_SatData d \<Longrightarrow> j < length default_keys \<Longrightarrow> length (data d ! j) = len d"
  by (simp add: wf_SatData_def list_all_length)

lemma setitem_ok:
  assumes "wf_SatData d" and "k \<in> set default_keys" and "length v = len d"
  shows "setitem d k v = Inr (d\<lparr>data := (data d)[key_index k := v], vars := activate k (vars d)\<rparr>)"
proof -
  have "length (data d ! key_index k) = len d"
    using assms(1,2) by (simp add: wf_row_length key_index_less)
  then have "assign_row d k v = Inr (d\<lparr>data := (data d)[key_index k := v]\<rparr>)"
    using assms(2,3) by (simp add: assign_row_def Let_def)
  then show ?thesis
    using assms(2) by (simp add: setitem_def activate_def)
qed

lemma len_update:
  assumes "wf_SatData d" and "length v = len d" and "j < length default_keys"
  shows "len (d\<lparr>data := (data d)[j := v], vars := vs\<rparr>) = len d"
proof (cases "j = 0")
  case True
  then show ?thesis using assms by (simp add: len_def wf_SatData_def)
next
  case False
  then show ?thesis by (simp add: len_def)
qed

lemma wf_update:
  assumes "wf_SatData d" and "length v = len d" and "j < length default_keys"
  shows "wf_SatData (d\<lparr>data := (data d)[j := v], vars := vs\<rparr>)"
proof -
  have l: "len (d\<lparr>data := (data d)[j := v], vars := vs\<rparr>) = len d"
    by (rule len_update [OF assms])
  have "list_all (\<lambda>r. length r = len d) ((data d)[j := v])"
    using assms by (auto simp: wf_SatData_def list_all_length nth_list_update)
  then show ?thesis
    using assms(1) unfolding wf_SatData_def l by simp
qed

lemma store_bxyz_ok:
  assumes "wf_SatData d" and "length vs = len d"
  shows "store_bxyz d vs =
           Inr (d\<lparr>data := (data d)[6 := map fst3 vs, 7 := map snd3 vs, 8 := map thd3 vs],
                  vars := activate ''bz'' (activate ''by'' (activate ''bx'' (vars d)))\<rparr>)"
proof -
  let ?d1 = "d\<lparr>data := (data d)[6 := map fst3 vs], vars := activate ''bx'' (vars d)\<rparr>"
  let ?d2 = "?d1\<lparr>data := (data ?d1)[7 := map snd3 vs], vars := activate ''by'' (vars ?d1)\<rparr>"
  have s1: "setitem d ''bx'' (map fst3 vs) = Inr ?d1"
    using setitem_ok [OF assms(1), of "''bx''" "map fst3 vs"] assms(2)
    by (simp add: default_keys_mem key_index_values)
  have wf1: "wf_SatData ?d1" and len1: "len ?d1 = len d"
    using wf_update [OF assms(1), of "map fst3 vs" 6] len_update [OF assms(1), of "map fst3 vs" 6]
      assms(2) by (simp_all add: length_default_keys)
  have s2: "setitem ?d1 ''by'' (map snd3 vs) = Inr ?d2"
    using setitem_ok [OF wf1, of "''by''" "map snd3 vs"] assms(2) len1
    by (simp add: default_keys_mem key_index_values)
  have wf2: "wf_SatData ?d2" and len2: "len ?d2 = len d"
    using wf_update [OF wf1, of "map snd3 vs" 7] len_update [OF wf1, of "map snd3 vs" 7]
      assms(2) len1 by (simp_all add: length_default_keys)
  have s3: "setitem ?d2 ''bz'' (map thd3 vs) =
      Inr (?d2\<lparr>data := (data ?d2)[8 := map thd3 vs], vars := activate ''bz'' (vars ?d2)\<rparr>)"
    using setitem_ok [OF wf2, of "''bz''" "map thd3 vs"] assms(2) len2
    by (simp add: default_keys_mem key_index_values)
  show ?thesis
    unfolding store_bxyz_def s1 bind_sum_Inr s2 s3 by simp
qed

lemma read_vec_Inr:
  "read_vec d k1 k2 k3 i = Inr v \<Longrightarrow> v = stored_vec d k1 k2 k3 i"
  by (auto simp: read_vec_def stored_vec_def getitem_def bind_sum_eq_Inr split: if_splits)

lemma read_vec_active:
  assumes "k1 \<in> set (vars d)" "k2 \<in> set (vars d)" "k3 \<in> set (vars d)"
      and "k1 \<in> set default_keys" "k2 \<in> set default_keys" "k3 \<in> set default_keys"
  shows "read_vec d k1 k2 k3 i = Inr (stored_vec d k1 k2 k3 i)"
  using assms by (simp add: read_vec_def stored_vec_def getitem_active)

lemma vec3_collapse: "(fst3 v, snd3 v, thd3 v) = v"
  by (cases v) (simp add: fst3_def snd3_def thd3_def)

lemma stored_bxyz_after:
  assumes "length (data d) = 18" and "i < length vs"
  shows "stored_vec (d\<lparr>data := (data d)[6 := map fst3 vs, 7 := map snd3 vs, 8 := map thd3 vs],
                       vars := w\<rparr>) ''bx'' ''by'' ''bz'' i = vs ! i"
  using assms by (simp add: stored_vec_def key_index_values vec3_collapse)

subsection \<open>The results of the two conversions\<close>

lemma bind_sum_InrE:
  assumes "bind_sum m f = Inr y"
  obtains x where "m = Inr x" and "f x = Inr y"
  using assms by (cases m) simp_all

text \<open>The result of a successful GSE to GSM conversion.\<close>

lemma convert_GSE_to_GSM_Inr:
  assumes wf: "wf_SatData d" and conv: "convert_GSE_to_GSM cal d = Inr d'"
  obtains res where
    "length res = len d"
    "\<And>i. i < len d \<Longrightarrow>
       GSE_to_GSM_sample (mjd_of cal (data d ! 0 ! i)) (UT_of cal (data d ! 0 ! i))
         (stored_vec d ''bx'' ''by'' ''bz'' i) = Some (res ! i)"
    "d' = d\<lparr>data := (data d)[6 := map fst3 res, 7 := map snd3 res, 8 := map thd3 res],
            vars := activate ''bz'' (activate ''by'' (activate ''bx'' (vars d)))\<rparr>"
proof -
  let ?tm = "data d ! 0"
  let ?steps = "map (\<lambda>i. bind_sum (read_vec d ''bx'' ''by'' ''bz'' i) (\<lambda>GSE.
                     Inr (GSE_to_GSM_sample (mjd_of cal (?tm ! i)) (UT_of cal (?tm ! i)) GSE)))
                  [0..<length ?tm]"
  have c: "bind_sum (sequence_sum ?steps) (\<lambda>res.
              if None \<in> set res then Inl NonFinite
              else bind_sum (store_bxyz d (map the res)) (\<lambda>d3.
                (let dropped = str_replace (ReferenceFrame (h d3)) ''GSE'' ''GSM'' in Inr d3)))
           = Inr d'"
    using conv unfolding convert_GSE_to_GSM_def getitem_time bind_sum_Inr .
  obtain ores where seq: "sequence_sum ?steps = Inr ores"
    and rest: "(if None \<in> set ores then Inl NonFinite
                else bind_sum (store_bxyz d (map the ores)) (\<lambda>d3.
                  (let dropped = str_replace (ReferenceFrame (h d3)) ''GSE'' ''GSM'' in Inr d3)))
               = Inr d'"
    by (rule bind_sum_InrE [OF c])
  have lres: "length ores = len d"
    using sequence_sum_Inr_length [OF seq] by (simp add: len_def)
  from rest have nonan: "None \<notin> set ores"
    by (auto split: if_splits)
  have "bind_sum (store_bxyz d (map the ores)) Inr = Inr d'"
    using rest nonan by (simp add: Let_def)
  then have store: "store_bxyz d (map the ores) = Inr d'"
    by (elim bind_sum_InrE) simp
  have samp: "GSE_to_GSM_sample (mjd_of cal (?tm ! i)) (UT_of cal (?tm ! i))
         (stored_vec d ''bx'' ''by'' ''bz'' i) = Some (map the ores ! i)" if "i < len d" for i
  proof -
    have i: "i < length ?tm" using that by (simp add: len_def)
    have "?steps ! i = Inr (ores ! i)"
      using sequence_sum_Inr_nth [OF seq, of i] i by simp
    then have "bind_sum (read_vec d ''bx'' ''by'' ''bz'' i) (\<lambda>GSE.
                 Inr (GSE_to_GSM_sample (mjd_of cal (?tm ! i)) (UT_of cal (?tm ! i)) GSE))
               = Inr (ores ! i)"
      using i by simp
    then obtain GSE where rv: "read_vec d ''bx'' ''by'' ''bz'' i = Inr GSE"
      and s: "GSE_to_GSM_sample (mjd_of cal (?tm ! i)) (UT_of cal (?tm ! i)) GSE = ores ! i"
      by (elim bind_sum_InrE) simp
    have "ores ! i \<in> set ores" using that lres by simp
    with nonan obtain w where "ores ! i = Some w" by (cases "ores ! i") auto
    then show ?thesis
      using s read_vec_Inr [OF rv] that lres by simp
  qed
  show ?thesis
  proof (rule that [of "map the ores"])
    show "length (map the ores) = len d" using lres by simp
    show "\<And>i. i < len d \<Longrightarrow>
       GSE_to_GSM_sample (mjd_of cal (data d ! 0 ! i)) (UT_of cal (data d ! 0 ! i))
         (stored_vec d ''bx'' ''by'' ''bz'' i) = Some (map the ores ! i)"
      by (rule samp)
    show "d' = d\<lparr>data := (data d)[6 := map fst3 (map the ores), 7 := map snd3 (map the ores),
                                   8 := map thd3 (map the ores)],
            vars := activate ''bz'' (activate ''by'' (activate ''bx'' (vars d)))\<rparr>"
      using store store_bxyz_ok [OF wf, of "map the ores"] lres by simp
  qed
qed

lemma convert_GSE_to_GSM_magnitude:
  assumes wf: "wf_SatData d" and conv: "convert_GSE_to_GSM cal d = Inr d'" and i: "i < len d"
  shows "norm3 (stored_vec d' ''bx'' ''by'' ''bz'' i) = norm3 (stored_vec d ''bx'' ''by'' ''bz'' i)"
proof -
  from convert_GSE_to_GSM_Inr [OF wf conv] obtain res where
    lres: "length res = len d" and
    samp: "\<And>i. i < len d \<Longrightarrow>
       GSE_to_GSM_sample (mjd_of cal (data d ! 0 ! i)) (UT_of cal (data d ! 0 ! i))
         (stored_vec d ''bx'' ''by'' ''bz'' i) = Some (res ! i)" and
    d': "d' = d\<lparr>data := (data d)[6 := map fst3 res, 7 := map snd3 res, 8 := map thd3 res],
            vars := activate ''bz'' (activate ''by'' (activate ''bx'' (vars d)))\<rparr>"
    by blast
  have "stored_vec d' ''bx'' ''by'' ''bz'' i = res ! i"
    unfolding d' using wf i lres
    by (intro stored_bxyz_after) (simp_all add: wf_SatData_def length_default_keys)
  then show ?thesis
    using norm3_GSE_to_GSM_sample [OF samp [OF i]] by simp
qed

lemma convert_GSE_to_GSM_header:
  assumes wf: "wf_SatData d" and conv: "convert_GSE_to_GSM cal d = Inr d'"
  shows "h d' = h d"
proof -
  from convert_GSE_to_GSM_Inr [OF wf conv] obtain res where
    "d' = d\<lparr>data := (data d)[6 := map fst3 res, 7 := map snd3 res, 8 := map thd3 res],
            vars := activate ''bz'' (activate ''by'' (activate ''bx'' (vars d)))\<rparr>"
    by blast
  then show ?thesis by simp
qed

lemma convert_RTN_to_GSE_Inr:
  assumes wf: "wf_SatData d" and conv: "convert_RTN_to_GSE cal d pos_obj pos_tnum = Inr d'"
  obtains gse where
    "length gse = len d"
    "\<And>i. i < len d \<Longrightarrow>
       \<exists>p v. rtn_position d pos_obj pos_tnum (data d ! 0) i = Inr p
           \<and> RTN_to_HEEQ_sample p (stored_vec d ''br'' ''bt'' ''bn'' i) = Some v
           \<and> gse ! i = HEEQ_to_GSE_sample (mjd_of cal (data d ! 0 ! i)) (UT_of cal (data d ! 0 ! i)) v"
    "d' = d\<lparr>data := (data d)[6 := map fst3 gse, 7 := map snd3 gse, 8 := map thd3 gse],
            vars := activate ''bz'' (activate ''by'' (activate ''bx'' (vars d))),
            h := (h d)\<lparr>ReferenceFrame := ReferenceFrame (h d) @ ''-GSE''\<rparr>\<rparr>"
proof -
  let ?tm = "data d ! 0"
  let ?steps = "map (\<lambda>i. bind_sum (rtn_position d pos_obj pos_tnum ?tm i) (\<lambda>p.
                   bind_sum (read_vec d ''br'' ''bt'' ''bn'' i) (\<lambda>b.
                     Inr (RTN_to_HEEQ_sample p b))))
                  [0..<length ?tm]"
  let ?gse = "\<lambda>heeq. map (\<lambda>i. map_option
                       (HEEQ_to_GSE_sample (mjd_of cal (?tm ! i)) (UT_of cal (?tm ! i))) (heeq ! i))
                  [0..<length ?tm]"
  have guard: "\<not> (length pos_obj = 0 \<and> length pos_tnum = 0 \<and> pos d = None)"
    using conv unfolding convert_RTN_to_GSE_def getitem_time bind_sum_Inr
    by (auto split: if_splits)
  have c: "bind_sum (sequence_sum ?steps) (\<lambda>heeq.
             if None \<in> set (?gse heeq) then Inl NonFinite
             else bind_sum (store_bxyz d (map the (?gse heeq))) (\<lambda>d3.
                Inr (d3\<lparr>h := (h d3)\<lparr>ReferenceFrame := ReferenceFrame (h d3) @ ''-GSE''\<rparr>\<rparr>)))
           = Inr d'"
    using conv guard unfolding convert_RTN_to_GSE_def getitem_time bind_sum_Inr Let_def
    by (simp only: if_False)
  obtain heeq where seq: "sequence_sum ?steps = Inr heeq"
    and rest: "(if None \<in> set (?gse heeq) then Inl NonFinite
             else bind_sum (store_bxyz d (map the (?gse heeq))) (\<lambda>d3.
                Inr (d3\<lparr>h := (h d3)\<lparr>ReferenceFrame := ReferenceFrame (h d3) @ ''-GSE''\<rparr>\<rparr>)))
           = Inr d'"
    by (rule bind_sum_InrE [OF c])
  have lheeq: "length heeq = len d"
    using sequence_sum_Inr_length [OF seq] by (simp add: len_def)
  have lgse: "length (?gse heeq) = len d"
    by (simp add: len_def)
  have nonan: "None \<notin> set (?gse heeq)"
    using rest by (auto split: if_splits)
  have "bind_sum (store_bxyz d (map the (?gse heeq))) (\<lambda>d3.
                Inr (d3\<lparr>h := (h d3)\<lparr>ReferenceFrame := ReferenceFrame (h d3) @ ''-GSE''\<rparr>\<rparr>))
        = Inr d'"
    using rest nonan by (simp only: if_False)
  then obtain d3 where store: "store_bxyz d (map the (?gse heeq)) = Inr d3"
    and d': "d' = d3\<lparr>h := (h d3)\<lparr>ReferenceFrame := ReferenceFrame (h d3) @ ''-GSE''\<rparr>\<rparr>"
    by (elim bind_sum_InrE) simp
  have samp: "\<exists>p v. rtn_position d pos_obj pos_tnum ?tm i = Inr p
           \<and> RTN_to_HEEQ_sample p (stored_vec d ''br'' ''bt'' ''bn'' i) = Some v
           \<and> map the (?gse heeq) ! i
               = HEEQ_to_GSE_sample (mjd_of cal (?tm ! i)) (UT_of cal (?tm ! i)) v"
    if "i < len d" for i
  proof -
    have i: "i < length ?tm" using that by (simp add: len_def)
    have "?steps ! i = Inr (heeq ! i)"
      using sequence_sum_Inr_nth [OF seq, of i] i by simp
    then have "bind_sum (rtn_position d pos_obj pos_tnum ?tm i) (\<lambda>p.
                   bind_sum (read_vec d ''br'' ''bt'' ''bn'' i) (\<lambda>b.
                     Inr (RTN_to_HEEQ_sample p b))) = Inr (heeq ! i)"
      using i by simp
    then obtain p b where rp: "rtn_position d pos_obj pos_tnum ?tm i = Inr p"
      and rv: "read_vec d ''br'' ''bt'' ''bn'' i = Inr b"
      and s: "RTN_to_HEEQ_sample p b = heeq ! i"
      by (elim bind_sum_InrE) simp
    have g: "?gse heeq ! i = map_option
              (HEEQ_to_GSE_sample (mjd_of cal (?tm ! i)) (UT_of cal (?tm ! i))) (heeq ! i)"
      using i by simp
    have "?gse heeq ! i \<in> set (?gse heeq)"
      using i by (intro nth_mem) simp
    with nonan have "?gse heeq ! i \<noteq> None" by metis
    with g obtain v where v: "heeq ! i = Some v" by (cases "heeq ! i") auto
    have "map the (?gse heeq) ! i
            = HEEQ_to_GSE_sample (mjd_of cal (?tm ! i)) (UT_of cal (?tm ! i)) v"
      using i v by simp
    moreover have "RTN_to_HEEQ_sample p (stored_vec d ''br'' ''bt'' ''bn'' i) = Some v"
      using s v read_vec_Inr [OF rv] by simp
    ultimately show ?thesis
      using rp by blast
  qed
  show ?thesis
  proof (rule that [of "map the (?gse heeq)"])
    show "length (map the (?gse heeq)) = len d" by (simp add: len_def)
    show "\<And>i. i < len d \<Longrightarrow>
       \<exists>p v. rtn_position d pos_obj pos_tnum (data d ! 0) i = Inr p
           \<and> RTN_to_HEEQ_sample p (stored_vec d ''br'' ''bt'' ''bn'' i) = Some v
           \<and> map the (?gse heeq) ! i
               = HEEQ_to_GSE_sample (mjd_of cal (data d ! 0 ! i)) (UT_of cal (data d ! 0 ! i)) v"
      by (rule samp)
    have "d3 = d\<lparr>data := (data d)[6 := map fst3 (map the (?gse heeq)),
                                  7 := map snd3 (map the (?gse heeq)),
                                  8 := map thd3 (map the (?gse heeq))],
                 vars := activate ''bz'' (activate ''by'' (activate ''bx'' (vars d)))\<rparr>"
      using store store_bxyz_ok [OF wf, of "map the (?gse heeq)"] by (simp add: len_def)
    then show "d' = d\<lparr>data := (data d)[6 := map fst3 (map the (?gse heeq)),
                                  7 := map snd3 (map the (?gse heeq)),
                                  8 := map thd3 (map the (?gse heeq))],
            vars := activate ''bz'' (activate ''by'' (activate ''bx'' (vars d))),
            h := (h d)\<lparr>ReferenceFrame := ReferenceFrame (h d) @ ''-GSE''\<rparr>\<rparr>"
      using d' by simp
  qed
qed

lemma convert_RTN_to_GSE_magnitude:
  assumes wf: "wf_SatData d" and conv: "convert_RTN_to_GSE cal d pos_obj pos_tnum = Inr d'"
      and i: "i < len d"
  shows "norm3 (stored_vec d' ''bx'' ''by'' ''bz'' i) = norm3 (stored_vec d ''br'' ''bt'' ''bn'' i)"
proof -
  from convert_RTN_to_GSE_Inr [OF wf conv] obtain gse where
    lgse: "length gse = len d" and
    samp: "\<And>i. i < len d \<Longrightarrow>
       \<exists>p v. rtn_position d pos_obj pos_tnum (data d ! 0) i = Inr p
           \<and> RTN_to_HEEQ_sample p (stored_vec d ''br'' ''bt'' ''bn'' i) = Some v
           \<and> gse ! i = HEEQ_to_GSE_sample (mjd_of cal (data d ! 0 ! i)) (UT_of cal (data d ! 0 ! i)) v" and
    d': "d' = d\<lparr>data := (data d)[6 := map fst3 gse, 7 := map snd3 gse, 8 := map thd3 gse],
            vars := activate ''bz'' (activate ''by'' (activate ''bx'' (vars d))),
            h := (h d)\<lparr>ReferenceFrame := ReferenceFrame (h d) @ ''-GSE''\<rparr>\<rparr>"
    by blast
  have "stored_vec (d\<lparr>data := (data d)[6 := map fst3 gse, 7 := map snd3 gse, 8 := map thd3 gse],
            vars := activate ''bz'' (activate ''by'' (activate ''bx'' (vars d)))\<rparr>)
          ''bx'' ''by'' ''bz'' i = gse ! i"
    using wf i lgse
    by (intro stored_bxyz_after) (simp_all add: wf_SatData_def length_default_keys)
  then have sv: "stored_vec d' ''bx'' ''by'' ''bz'' i = gse ! i"
    unfolding d' by (simp add: stored_vec_def)
  from samp [OF i] obtain p v where
    v: "RTN_to_HEEQ_sample p (stored_vec d ''br'' ''bt'' ''bn'' i) = Some v" and
    g: "gse ! i = HEEQ_to_GSE_sample (mjd_of cal (data d ! 0 ! i)) (UT_of cal (data d ! 0 ! i)) v"
    by blast
  show ?thesis
    unfolding sv g norm3_HEEQ_to_GSE_sample by (rule norm3_RTN_to_HEEQ_sample [OF v])
qed

subsection \<open>When the conversions return\<close>

lemma sequence_sum_map_Inr: "sequence_sum (map (\<lambda>i. Inr (f i)) xs) = Inr (map f xs)"
  by (induction xs) simp_all

lemma activate_member: "k \<in> set vs \<Longrightarrow> activate k vs = vs"
  by (simp add: activate_def)

lemma convert_GSE_to_GSM_defined:
  assumes wf: "wf_SatData d"
      and act: "''bx'' \<in> set (vars d)" "''by'' \<in> set (vars d)" "''bz'' \<in> set (vars d)"
      and psi: "\<And>i. i < len d \<Longrightarrow>
                  psigsm_of (mjd_of cal (data d ! 0 ! i)) (UT_of cal (data d ! 0 ! i)) \<noteq> None"
  shows "\<exists>d'. convert_GSE_to_GSM cal d = Inr d'"
proof -
  let ?tm = "data d ! 0"
  let ?f = "\<lambda>i. GSE_to_GSM_sample (mjd_of cal (?tm ! i)) (UT_of cal (?tm ! i))
                   (stored_vec d ''bx'' ''by'' ''bz'' i)"
  have steps: "map (\<lambda>i. bind_sum (read_vec d ''bx'' ''by'' ''bz'' i) (\<lambda>GSE.
                     Inr (GSE_to_GSM_sample (mjd_of cal (?tm ! i)) (UT_of cal (?tm ! i)) GSE)))
                  [0..<length ?tm]
               = map (\<lambda>i. Inr (?f i)) [0..<length ?tm]"
    by (simp add: read_vec_active act default_keys_mem)
  have nonan: "None \<notin> set (map ?f [0..<length ?tm])"
  proof
    assume "None \<in> set (map ?f [0..<length ?tm])"
    then obtain i where "i < length ?tm" and "?f i = None" by auto
    then show False
      using psi [of i] by (auto simp: GSE_to_GSM_sample_def len_def split: option.splits)
  qed
  have "length (map the (map ?f [0..<length ?tm])) = len d"
    by (simp add: len_def)
  from store_bxyz_ok [OF wf this]
  obtain d3 where "store_bxyz d (map the (map ?f [0..<length ?tm])) = Inr d3" by blast
  then show ?thesis
    unfolding convert_GSE_to_GSM_def getitem_time bind_sum_Inr steps sequence_sum_map_Inr
    using nonan by (simp add: Let_def)
qed

lemma convert_RTN_to_GSE_defined:
  assumes wf: "wf_SatData d"
      and act: "''br'' \<in> set (vars d)" "''bt'' \<in> set (vars d)" "''bn'' \<in> set (vars d)"
      and guard: "\<not> (length pos_obj = 0 \<and> length pos_tnum = 0 \<and> pos d = None)"
      and posn: "\<And>i. i < len d \<Longrightarrow>
                  \<exists>p. rtn_position d pos_obj pos_tnum (data d ! 0) i = Inr p
                      \<and> (fst3 p \<noteq> 0 \<or> snd3 p \<noteq> 0)"
  shows "\<exists>d'. convert_RTN_to_GSE cal d pos_obj pos_tnum = Inr d'"
proof -
  let ?tm = "data d ! 0"
  let ?step = "\<lambda>i. bind_sum (rtn_position d pos_obj pos_tnum ?tm i) (\<lambda>p.
                   bind_sum (read_vec d ''br'' ''bt'' ''bn'' i) (\<lambda>b.
                     Inr (RTN_to_HEEQ_sample p b)))"
  let ?gse = "\<lambda>heeq. map (\<lambda>i. map_option
                       (HEEQ_to_GSE_sample (mjd_of cal (?tm ! i)) (UT_of cal (?tm ! i))) (heeq ! i))
                  [0..<length ?tm]"
  have step: "\<exists>v. ?step i = Inr (Some v)" if "i < length ?tm" for i
  proof -
    from posn [of i] that obtain p where
      p: "rtn_position d pos_obj pos_tnum ?tm i = Inr p" and off: "fst3 p \<noteq> 0 \<or> snd3 p \<noteq> 0"
      by (auto simp: len_def)
    from RTN_to_HEEQ_sample_defined [OF off] obtain v where
      "RTN_to_HEEQ_sample p (stored_vec d ''br'' ''bt'' ''bn'' i) = Some v" by blast
    then have "?step i = Inr (Some v)"
      by (simp add: p read_vec_active act default_keys_mem)
    then show ?thesis by (rule exI)
  qed
  have "\<exists>heeq. sequence_sum (map ?step [0..<length ?tm]) = Inr heeq"
  proof (rule sequence_sum_all_Inr)
    fix x
    assume "x \<in> set (map ?step [0..<length ?tm])"
    then obtain i where "i < length ?tm" and "x = ?step i"
      unfolding set_map by force
    with step [of i] show "\<exists>v. x = Inr v" by blast
  qed
  then obtain heeq where seq: "sequence_sum (map ?step [0..<length ?tm]) = Inr heeq" ..
  have nonan: "None \<notin> set (?gse heeq)"
  proof
    assume "None \<in> set (?gse heeq)"
    then obtain i where i: "i < length ?tm" and n: "heeq ! i = None" by auto
    have "map ?step [0..<length ?tm] ! i = Inr (heeq ! i)"
      using sequence_sum_Inr_nth [OF seq, of i] i by simp
    with step [OF i] i n show False by force
  qed
  have "length (map the (?gse heeq)) = len d"
    by (simp add: len_def)
  from store_bxyz_ok [OF wf this]
  obtain d3 where "store_bxyz d (map the (?gse heeq)) = Inr d3" by blast
  then show ?thesis
    unfolding convert_RTN_to_GSE_def getitem_time bind_sum_Inr seq Let_def
    using nonan guard by simp
qed

lemma thd3_pole_chain:
  "thd3 (mat_vec (mat_mul (mat_mul (rot_z a) (rot_x e)) (transpose3 (rot_z z))) (gx, gy, gz))
   = cos e * gz - sin e * (sin z * gx + cos z * gy)"
  by (simp add: thd3_def mat_vec_def mat_mul_def transpose3_def rot_z_def rot_x_def dot3_def
      algebra_simps)

lemma pole_component_positive:
  assumes "0 < e" and "e < p" and "p < pi / 2"
  shows "0 < cos e * sin p - sin e * (sin z * (cos p * cos l) + cos z * (cos p * sin l))"
proof -
  have se: "0 \<le> sin e"
    using assms by (intro sin_ge_zero) auto
  have cp: "0 \<le> cos p"
    using assms by (intro cos_ge_zero) auto
  have "sin z * (cos p * cos l) + cos z * (cos p * sin l) = cos p * sin (z + l)"
    by (simp add: sin_add algebra_simps)
  moreover have "sin e * (cos p * sin (z + l)) \<le> sin e * cos p"
  proof -
    have "(sin e * cos p) * sin (z + l) \<le> (sin e * cos p) * 1"
      by (intro mult_left_mono) (use se cp in auto)
    then show ?thesis by (simp add: mult.assoc)
  qed
  moreover have "0 < sin (p - e)"
    using assms by (intro sin_gt_zero) auto
  then have "sin e * cos p < cos e * sin p"
    by (simp add: sin_diff mult.commute)
  ultimately show ?thesis by simp
qed

lemma psigsm_of_defined:
  assumes "0 < 23.439 - 0.013 * T00_of mjd"
      and "23.439 - 0.013 * T00_of mjd < 78.8 + 4.283 * ((mjd - 46066) / 365.25) * 0.01"
      and "78.8 + 4.283 * ((mjd - 46066) / 365.25) * 0.01 < 90"
  shows "psigsm_of mjd UT \<noteq> None"
proof -
  let ?e = "(23.439 - 0.013 * T00_of mjd) * pi / 180"
  let ?p = "(78.8 + 4.283 * ((mjd - 46066) / 365.25) * 0.01) * pi / 180"
  have e: "0 < ?e" using assms(1) by simp
  have ep: "?e < ?p" using assms(2) by (simp add: divide_strict_right_mono)
  have "?p < 90 * pi / 180"
    using assms(3) by (intro divide_strict_right_mono mult_strict_right_mono) simp_all
  then have p: "?p < pi / 2" by simp
  have "0 < thd3 (Qe_of mjd UT)"
    unfolding Qe_of_def Let_def thd3_pole_chain
    by (rule pole_component_positive [OF e ep p])
  then show ?thesis
    by (cases "Qe_of mjd UT") (simp add: psigsm_of_def thd3_def)
qed

subsection \<open>The example inputs\<close>

lemma example_GSE_constructed:
  "SatData_init
     [(''time'', [730120.5]), (''speed'', [400]), (''density'', [10]),
      (''bx'', [3]), (''by'', [4]), (''bz'', [0]), (''btot'', [5])]
     (Some ''DSCOVR'') (Some (empty_header\<lparr>ReferenceFrame := ''GSE''\<rparr>))
   = Inr example_GSE"
  by (simp add: SatData_init_def default_keys_def example_GSE_def)

lemma wf_example_GSE: "wf_SatData example_GSE"
  by (simp add: wf_SatData_def example_GSE_def len_def default_keys_def)

lemma wf_example_RTN: "wf_SatData example_RTN"
  by (simp add: wf_SatData_def example_RTN_def len_def default_keys_def)

lemma len_example_GSE: "len example_GSE = 1"
  by (simp add: example_GSE_def len_def)

lemma len_example_RTN: "len example_RTN = 1"
  by (simp add: example_RTN_def len_def)

lemma mjd_example: "mjd_of example_calendar t = 51544"
proof -
  have "\<lfloor>103089 / 2 :: real\<rfloor> = 51544" by linarith
  then show ?thesis
    by (simp add: mjd_of_def example_calendar_def py_int_def)
qed

lemma psigsm_example: "psigsm_of (mjd_of example_calendar t) u \<noteq> None"
  unfolding mjd_example by (rule psigsm_of_defined) (simp_all add: T00_of_def)

lemma example_GSE_converts: "\<exists>d'. convert_GSE_to_GSM example_calendar example_GSE = Inr d'"
  by (rule convert_GSE_to_GSM_defined [OF wf_example_GSE])
     (simp_all add: psigsm_example, simp_all add: example_GSE_def)

lemma example_RTN_converts_GSM: "\<exists>d'. convert_GSE_to_GSM example_calendar example_RTN = Inr d'"
  by (rule convert_GSE_to_GSM_defined [OF wf_example_RTN])
     (simp_all add: psigsm_example, simp_all add: example_RTN_def)

lemma example_RTN_position:
  "rtn_position example_RTN [] [] tm 0 = Inr (1 / AU_km, 0, 0)"
  by (simp add: rtn_position_def example_RTN_def pos_getitem_def sphere2cart_def scale3_def)

lemma example_RTN_converts_GSE: "\<exists>d'. convert_RTN_to_GSE example_calendar example_RTN [] [] = Inr d'"
proof (rule convert_RTN_to_GSE_defined [OF wf_example_RTN])
  show "''br'' \<in> set (vars example_RTN)" "''bt'' \<in> set (vars example_RTN)"
    "''bn'' \<in> set (vars example_RTN)"
    by (simp_all add: example_RTN_def)
  show "\<not> (length [] = 0 \<and> length [] = 0 \<and> pos example_RTN = None)"
    by (simp add: example_RTN_def)
  fix i
  assume "i < len example_RTN"
  then have "i = 0" by (simp add: len_example_RTN)
  then show "\<exists>p. rtn_position example_RTN [] [] (data example_RTN ! 0) i = Inr p
                \<and> (fst3 p \<noteq> 0 \<or> snd3 p \<noteq> 0)"
    by (simp add: example_RTN_position fst3_def AU_km_def)
qed

subsection \<open>The claims about the frame conversions\<close>

text \<open>
  Claim C2. For every sample \<open>i\<close> of a well-formed container, a frame conversion that
  returns keeps the magnitude of the field vector exactly, in real arithmetic:
  \<^verbatim>\<open>convert_GSE_to_GSM\<close> stores components \<open>bx, by, bz\<close> of the same magnitude as the ones
  it read, and \<^verbatim>\<open>convert_RTN_to_GSE\<close> stores components \<open>bx, by, bz\<close> of the magnitude of
  the components \<open>br, bt, bn\<close> it read. Every transform applied to a sample is a rotation
  (or a change of sign of two components). The conversions return for every input on which
  no division by zero occurs (\<open>convert_GSE_to_GSM_defined\<close>,
  \<open>convert_RTN_to_GSE_defined\<close>, \<open>psigsm_of_defined\<close>, \<open>RTN_to_HEEQ_sample_defined\<close>).
\<close>

theorem frame_conversions_preserve_magnitude:
  assumes "wf_SatData d" and "i < len d"
  shows "(convert_GSE_to_GSM cal d = Inr d1 \<longrightarrow>
            norm3 (stored_vec d1 ''bx'' ''by'' ''bz'' i) = norm3 (stored_vec d ''bx'' ''by'' ''bz'' i))
       \<and> (convert_RTN_to_GSE cal d pos_obj pos_tnum = Inr d2 \<longrightarrow>
            norm3 (stored_vec d2 ''bx'' ''by'' ''bz'' i) = norm3 (stored_vec d ''br'' ''bt'' ''bn'' i))"
  using convert_GSE_to_GSM_magnitude [OF assms(1) _ assms(2)]
        convert_RTN_to_GSE_magnitude [OF assms(1) _ assms(2)]
  by blast

text \<open>
  The theorem at the example container: both conversions return, the GSE vector
  \<open>(1, 2, 2)\<close> keeps its magnitude 3 and the RTN vector \<open>(3, 4, 12)\<close> its magnitude 13.
\<close>

theorem frame_conversions_preserve_magnitude_witness:
  "wf_SatData example_RTN \<and> 0 < len example_RTN
   \<and> (\<exists>d1. convert_GSE_to_GSM example_calendar example_RTN = Inr d1
          \<and> norm3 (stored_vec d1 ''bx'' ''by'' ''bz'' 0) = 3)
   \<and> (\<exists>d2. convert_RTN_to_GSE example_calendar example_RTN [] [] = Inr d2
          \<and> norm3 (stored_vec d2 ''bx'' ''by'' ''bz'' 0) = 13)"
proof -
  have l: "0 < len example_RTN" by (simp add: len_example_RTN)
  obtain d1 where d1: "convert_GSE_to_GSM example_calendar example_RTN = Inr d1"
    using example_RTN_converts_GSM by blast
  obtain d2 where d2: "convert_RTN_to_GSE example_calendar example_RTN [] [] = Inr d2"
    using example_RTN_converts_GSE by blast
  have s3: "sqrt 9 = 3" by (rule real_sqrt_unique) simp_all
  have s13: "sqrt 169 = 13" by (rule real_sqrt_unique) simp_all
  have n1: "norm3 (stored_vec example_RTN ''bx'' ''by'' ''bz'' 0) = 3"
    by (simp add: stored_vec_def key_index_values example_RTN_def norm3_def s3)
  have n2: "norm3 (stored_vec example_RTN ''br'' ''bt'' ''bn'' 0) = 13"
    by (simp add: stored_vec_def key_index_values example_RTN_def norm3_def s13)
  from frame_conversions_preserve_magnitude
         [OF wf_example_RTN l, of example_calendar d1 "[]" "[]" d2] d1 d2 n1 n2
  show ?thesis
    using wf_example_RTN l by auto
qed

subsection \<open>The quadrant of theta\<close>

text \<open>The matrix \<^verbatim>\<open>S2_theta\<close> is built from the angle after the test.\<close>

lemma HEEQ_to_HEE_matrix_theta:
  "HEEQ_to_HEE_matrix mjd UT =
     mat_mul (rot_z (sun_lt2 (T00_of mjd) UT + pi))
       (mat_mul (mat_mul (rot_z (- omega_node_of mjd)) (rot_x (- inclination_ecl)))
          (rot_z (- theta_node_corrected (sun_lt2 (T00_of mjd) UT) (omega_node_of mjd))))"
  by (simp add: HEEQ_to_HEE_matrix_def Let_def)

text \<open>The arctangent puts theta in \<open>(-90, 90)\<close> degrees. With lambda minus omega in the
  second quadrant theta is negative, less than 180 degrees below lambda minus omega, and
  the test adds \<open>pi\<close>; with lambda minus omega in the fourth quadrant theta is negative,
  more than 180 degrees below, and the test adds nothing.\<close>

lemma cos_inclination_bounds: "0 < cos inclination_ecl \<and> cos inclination_ecl < 1"
proof -
  have p: "0 < inclination_ecl" "inclination_ecl < pi / 2"
    using pi_gt_zero by (simp_all add: inclination_ecl_def)
  have "0 < cos inclination_ecl"
    using p by (intro cos_gt_zero)
  moreover have "cos inclination_ecl < 1"
    using cos_monotone_0_pi [of 0 inclination_ecl] p pi_gt_zero by simp
  ultimately show ?thesis by simp
qed

lemma np_mod_turns:
  assumes "2 * pi * of_int n \<le> x" and "x < 2 * pi * of_int n + 2 * pi"
  shows "np_mod x (2 * pi) = x - 2 * pi * of_int n"
proof -
  have "\<lfloor>x / (2 * pi)\<rfloor> = n"
  proof (rule floor_unique)
    show "of_int n \<le> x / (2 * pi)"
      using assms(1) pi_gt_zero by (simp add: pos_le_divide_eq mult.commute)
    show "x / (2 * pi) < of_int n + 1"
      using assms(2) pi_gt_zero by (simp add: pos_divide_less_eq algebra_simps)
  qed
  then show ?thesis by (simp add: np_mod_def)
qed

lemma theta_second_quadrant:
  fixes n :: int
  assumes lo: "pi / 2 + 2 * pi * of_int n < lt2 - omega_node"
      and hi: "lt2 - omega_node < pi + 2 * pi * of_int n"
  shows "lambda_omega_deg lt2 omega_node = (lt2 - omega_node - 2 * pi * of_int n) * 180 / pi"
    and "- (pi / 2) < theta_node_of lt2 omega_node"
    and "theta_node_of lt2 omega_node < 0"
    and "lt2 - omega_node - 2 * pi * of_int n - pi < theta_node_of lt2 omega_node"
proof -
  define y where "y = lt2 - omega_node - 2 * pi * of_int n"
  define z where "z = y - pi"
  have y: "pi / 2 < y" "y < pi" using lo hi by (simp_all add: y_def)
  have z: "- (pi / 2) < z" "z < 0" using y by (simp_all add: z_def)
  have "np_mod (lt2 - omega_node) (2 * pi) = y"
    unfolding y_def using lo hi pi_gt_zero by (intro np_mod_turns) auto
  then show "lambda_omega_deg lt2 omega_node = (lt2 - omega_node - 2 * pi * of_int n) * 180 / pi"
    by (simp add: lambda_omega_deg_def y_def)
  have "lt2 - omega_node = z + of_int (2 * n + 1) * pi"
    by (simp add: z_def y_def algebra_simps)
  then have t: "tan (lt2 - omega_node) = tan z"
    by (simp only: tan_periodic_int)
  have tz: "tan z < 0"
    using z by (intro tan_less_zero) auto
  have c: "0 < cos inclination_ecl" "cos inclination_ecl < 1"
    using cos_inclination_bounds by simp_all
  have "cos inclination_ecl * tan z < 0"
    using c tz by (simp add: mult_pos_neg)
  then show "theta_node_of lt2 omega_node < 0"
    by (simp add: theta_node_of_def t)
  show "- (pi / 2) < theta_node_of lt2 omega_node"
    by (simp add: theta_node_of_def arctan_lbound)
  have "tan z < cos inclination_ecl * tan z"
    using c tz by simp
  then have "arctan (tan z) < arctan (cos inclination_ecl * tan z)"
    by (rule arctan_monotone)
  moreover have "arctan (tan z) = z"
    using z pi_gt_zero by (intro arctan_tan) auto
  ultimately show "lt2 - omega_node - 2 * pi * of_int n - pi < theta_node_of lt2 omega_node"
    by (simp add: theta_node_of_def t z_def y_def)
qed

lemma theta_second_quadrant_corrected:
  fixes n :: int
  assumes lo: "pi / 2 + 2 * pi * of_int n < lt2 - omega_node"
      and hi: "lt2 - omega_node < pi + 2 * pi * of_int n"
  shows "theta_node_corrected lt2 omega_node = theta_node_of lt2 omega_node + pi"
proof -
  note q = theta_second_quadrant [OF lo hi]
  define d where "d = lt2 - omega_node - 2 * pi * of_int n - theta_node_of lt2 omega_node"
  have eq: "lambda_omega_deg lt2 omega_node - theta_node_deg lt2 omega_node = d * (180 / pi)"
    by (simp add: q(1) theta_node_deg_def d_def diff_divide_distrib left_diff_distrib)
  have d: "0 < d" "d < pi"
    using q(3,4) lo pi_gt_zero by (simp_all add: d_def)
  have "0 < d * (180 / pi)"
    using d(1) pi_gt_zero by simp
  moreover have "d * (180 / pi) < pi * (180 / pi)"
    using d(2) pi_gt_zero by (intro mult_strict_right_mono) simp_all
  ultimately have "\<bar>lambda_omega_deg lt2 omega_node - theta_node_deg lt2 omega_node\<bar> < 180"
    by (simp add: eq)
  then show ?thesis by (simp add: theta_node_corrected_def)
qed


lemma theta_fourth_quadrant:
  fixes n :: int
  assumes lo: "3 * pi / 2 + 2 * pi * of_int n < lt2 - omega_node"
      and hi: "lt2 - omega_node < 2 * pi + 2 * pi * of_int n"
  shows "lambda_omega_deg lt2 omega_node = (lt2 - omega_node - 2 * pi * of_int n) * 180 / pi"
    and "- (pi / 2) < theta_node_of lt2 omega_node"
    and "theta_node_of lt2 omega_node < 0"
proof -
  define z where "z = lt2 - omega_node - 2 * pi * of_int n - 2 * pi"
  have z: "- (pi / 2) < z" "z < 0" using lo hi by (simp_all add: z_def)
  have "np_mod (lt2 - omega_node) (2 * pi) = lt2 - omega_node - 2 * pi * of_int n"
    using lo hi pi_gt_zero by (intro np_mod_turns) auto
  then show "lambda_omega_deg lt2 omega_node = (lt2 - omega_node - 2 * pi * of_int n) * 180 / pi"
    by (simp add: lambda_omega_deg_def)
  have "lt2 - omega_node = z + of_int (2 * n + 2) * pi"
    by (simp add: z_def algebra_simps)
  then have t: "tan (lt2 - omega_node) = tan z"
    by (simp only: tan_periodic_int)
  have tz: "tan z < 0"
    using z by (intro tan_less_zero) auto
  have "cos inclination_ecl * tan z < 0"
    using cos_inclination_bounds tz by (simp add: mult_pos_neg)
  then show "theta_node_of lt2 omega_node < 0"
    by (simp add: theta_node_of_def t)
  show "- (pi / 2) < theta_node_of lt2 omega_node"
    by (simp add: theta_node_of_def arctan_lbound)
qed

lemma theta_fourth_quadrant_corrected:
  fixes n :: int
  assumes lo: "3 * pi / 2 + 2 * pi * of_int n < lt2 - omega_node"
      and hi: "lt2 - omega_node < 2 * pi + 2 * pi * of_int n"
  shows "theta_node_corrected lt2 omega_node = theta_node_of lt2 omega_node"
proof -
  note q = theta_fourth_quadrant [OF lo hi]
  define d where "d = lt2 - omega_node - 2 * pi * of_int n - theta_node_of lt2 omega_node"
  have eq: "lambda_omega_deg lt2 omega_node - theta_node_deg lt2 omega_node = d * (180 / pi)"
    by (simp add: q(1) theta_node_deg_def d_def diff_divide_distrib left_diff_distrib)
  have "pi < d"
    using q(3) lo pi_gt_zero unfolding d_def by linarith
  then have "pi * (180 / pi) < d * (180 / pi)"
    using pi_gt_zero by (intro mult_strict_right_mono) simp_all
  then have "180 < lambda_omega_deg lt2 omega_node - theta_node_deg lt2 omega_node"
    using pi_gt_zero by (simp add: eq)
  then have "\<not> \<bar>lambda_omega_deg lt2 omega_node - theta_node_deg lt2 omega_node\<bar> < 180"
    by linarith
  then show ?thesis by (simp add: theta_node_corrected_def)
qed

lemma spec_sector_low: "0 \<le> a \<Longrightarrow> a < 180 \<Longrightarrow> spec_sector a = 0"
proof -
  assume a: "0 \<le> a" "a < 180"
  have "\<lfloor>a / 360\<rfloor> = 0" using a by (intro floor_unique) simp_all
  then have "np_mod a 360 = a" by (simp add: np_mod_def)
  moreover have "\<lfloor>a / 180\<rfloor> = 0" using a by (intro floor_unique) simp_all
  ultimately show ?thesis by (simp add: spec_sector_def)
qed

lemma spec_sector_high: "180 \<le> a \<Longrightarrow> a < 360 \<Longrightarrow> spec_sector a = 1"
proof -
  assume a: "180 \<le> a" "a < 360"
  have "\<lfloor>a / 360\<rfloor> = 0" using a by (intro floor_unique) simp_all
  then have "np_mod a 360 = a" by (simp add: np_mod_def)
  moreover have "\<lfloor>a / 180\<rfloor> = 1" using a by (intro floor_unique) simp_all
  ultimately show ?thesis by (simp add: spec_sector_def)
qed

lemma spec_sector_negative: "- 180 \<le> a \<Longrightarrow> a < 0 \<Longrightarrow> spec_sector a = 1"
proof -
  assume a: "- 180 \<le> a" "a < 0"
  have "\<lfloor>a / 360\<rfloor> = - 1" using a by (intro floor_unique) simp_all
  then have "np_mod a 360 = a + 360" by (simp add: np_mod_def)
  moreover have "\<lfloor>(a + 360) / 180\<rfloor> = 1" using a by (intro floor_unique) simp_all
  ultimately show ?thesis by (simp add: spec_sector_def)
qed

text \<open>The Sun's longitude \<^verbatim>\<open>lt2\<close>, in degrees, stays within 1.935 degrees of \<^verbatim>\<open>LAMBDA\<close>;
  on 3 November 2000 (modified Julian date 51851) at 12 UT lambda minus omega is
  between 90 and 180 degrees (plus one turn), on 21 April 2000 (51655) at 12 UT between
  270 and 360 degrees.\<close>

lemma sun_lt2_degrees:
  assumes "0 \<le> T" and "T \<le> 1"
  shows "\<bar>sun_lt2 T UT * 180 / pi - (280.460 + 36000.772 * T + 0.04107 * UT)\<bar> \<le> 1.935"
proof -
  define s1 where "s1 = sin ((357.528 + 35999.050 * T + 0.04107 * UT) * pi / 180)"
  define s2 where "s2 = sin (2 * (357.528 + 35999.050 * T + 0.04107 * UT) * pi / 180)"
  have s: "\<bar>s1\<bar> \<le> 1" "\<bar>s2\<bar> \<le> 1"
    by (simp_all add: s1_def s2_def abs_sin_le_one)
  have alg: "(L + c * a + e * b) * pi / 180 * 180 / pi - L = c * a + e * b"
    for L c a e b :: real
    using pi_gt_zero by simp
  have "sun_lt2 T UT * 180 / pi - (280.460 + 36000.772 * T + 0.04107 * UT)
        = (1.915 - 0.0048 * T) * s1 + 0.020 * s2"
    unfolding sun_lt2_def Let_def s1_def s2_def by (rule alg)
  moreover have "\<bar>(1.915 - 0.0048 * T) * s1\<bar> \<le> 1.915 * 1"
    unfolding abs_mult using assms s(1) by (intro mult_mono) simp_all
  moreover have "\<bar>0.020 * s2\<bar> \<le> 0.020"
    using s(2) by (simp add: abs_mult)
  ultimately show ?thesis by linarith
qed

lemma november_second_quadrant:
  "pi / 2 + 2 * pi * of_int 1 < sun_lt2 (T00_of 51851) 12 - omega_node_of 51851"
  "sun_lt2 (T00_of 51851) 12 - omega_node_of 51851 < pi + 2 * pi * of_int 1"
proof -
  define g where "g = sun_lt2 (T00_of 51851) 12 * 180 / pi"
  have "\<bar>g - (280.460 + 36000.772 * T00_of 51851 + 0.04107 * 12)\<bar> \<le> 1.935"
    unfolding g_def by (rule sun_lt2_degrees) (simp_all add: T00_of_def)
  note h = this [unfolded abs_le_iff T00_of_def]
  have g: "581 < g" "g < 586"
    using h by simp_all
  define w where "w = 73.6667 + 0.013958 * ((51851 + 3242) / 365.25 :: real)"
  have w: "75 < w" "w < 76" by (simp_all add: w_def)
  have x: "sun_lt2 (T00_of 51851) 12 - omega_node_of 51851 = (g - w) * (pi / 180)"
    using pi_gt_zero by (simp add: g_def w_def omega_node_of_def left_diff_distrib)
  have "450 * (pi / 180) < (g - w) * (pi / 180)"
    using g w pi_gt_zero by (intro mult_strict_right_mono) simp_all
  then show "pi / 2 + 2 * pi * of_int 1 < sun_lt2 (T00_of 51851) 12 - omega_node_of 51851"
    by (simp add: x)
  have "(g - w) * (pi / 180) < 540 * (pi / 180)"
    using g w pi_gt_zero by (intro mult_strict_right_mono) simp_all
  then show "sun_lt2 (T00_of 51851) 12 - omega_node_of 51851 < pi + 2 * pi * of_int 1"
    by (simp add: x)
qed


lemma april_fourth_quadrant:
  "3 * pi / 2 + 2 * pi * of_int 0 < sun_lt2 (T00_of 51655) 12 - omega_node_of 51655"
  "sun_lt2 (T00_of 51655) 12 - omega_node_of 51655 < 2 * pi + 2 * pi * of_int 0"
proof -
  define g where "g = sun_lt2 (T00_of 51655) 12 * 180 / pi"
  have "\<bar>g - (280.460 + 36000.772 * T00_of 51655 + 0.04107 * 12)\<bar> \<le> 1.935"
    unfolding g_def by (rule sun_lt2_degrees) (simp_all add: T00_of_def)
  note h = this [unfolded abs_le_iff T00_of_def]
  have g: "387 < g" "g < 392"
    using h by simp_all
  define w where "w = 73.6667 + 0.013958 * ((51655 + 3242) / 365.25 :: real)"
  have w: "75 < w" "w < 76" by (simp_all add: w_def)
  have x: "sun_lt2 (T00_of 51655) 12 - omega_node_of 51655 = (g - w) * (pi / 180)"
    using pi_gt_zero by (simp add: g_def w_def omega_node_of_def left_diff_distrib)
  have "270 * (pi / 180) < (g - w) * (pi / 180)"
    using g w pi_gt_zero by (intro mult_strict_right_mono) simp_all
  then show "3 * pi / 2 + 2 * pi * of_int 0 < sun_lt2 (T00_of 51655) 12 - omega_node_of 51655"
    by (simp add: x)
  have "(g - w) * (pi / 180) < 360 * (pi / 180)"
    using g w pi_gt_zero by (intro mult_strict_right_mono) simp_all
  then show "sun_lt2 (T00_of 51655) 12 - omega_node_of 51655 < 2 * pi + 2 * pi * of_int 0"
    by (simp add: x)
qed

lemma degrees_between:
  "a < x \<Longrightarrow> x < b \<Longrightarrow> a * 180 / pi < x * 180 / pi \<and> x * 180 / pi < b * 180 / pi"
  using pi_gt_zero by (simp add: divide_strict_right_mono)

text \<open>
  Claim C3 says that 180 degrees is added to theta exactly when lambda minus omega (modulo
  360 degrees) and theta fall in the same 180-degree-wide quadrant; the source's comments
  say ``quadrant of theta must be opposite lt2 - omega\_node'' and ``if in same quadrant,
  then theta\_node = theta\_node + pi''. On 3 November 2000 at 12 UT lambda minus omega is
  in \<open>(90, 180)\<close> degrees and theta in \<open>(-90, 0)\<close>: the two directions are in different
  sectors, theta is already in the opposite quadrant, and the code adds \<open>pi\<close>, which
  brings theta into the quadrant of lambda minus omega. On 21 April 2000 at 12 UT lambda
  minus omega is in \<open>(270, 360)\<close> degrees and theta in \<open>(-90, 0)\<close>, the same sector
  and the same quadrant, and the code adds nothing.
\<close>

theorem theta_correction_against_quadrant:
  "(let lt2 = sun_lt2 (T00_of 51851) 12; omega_node = omega_node_of 51851
    in 90 < lambda_omega_deg lt2 omega_node \<and> lambda_omega_deg lt2 omega_node < 180
       \<and> - 90 < theta_node_deg lt2 omega_node \<and> theta_node_deg lt2 omega_node < 0
       \<and> \<not> spec_same_sector (lambda_omega_deg lt2 omega_node) (theta_node_deg lt2 omega_node)
       \<and> theta_node_corrected lt2 omega_node = theta_node_of lt2 omega_node + pi)
   \<and> (let lt2 = sun_lt2 (T00_of 51655) 12; omega_node = omega_node_of 51655
      in 270 < lambda_omega_deg lt2 omega_node \<and> lambda_omega_deg lt2 omega_node < 360
         \<and> - 90 < theta_node_deg lt2 omega_node \<and> theta_node_deg lt2 omega_node < 0
         \<and> spec_same_sector (lambda_omega_deg lt2 omega_node) (theta_node_deg lt2 omega_node)
         \<and> theta_node_corrected lt2 omega_node = theta_node_of lt2 omega_node)"
proof -
  let ?l = "sun_lt2 (T00_of 51851) 12" and ?o = "omega_node_of 51851"
  note n = november_second_quadrant
  note q = theta_second_quadrant [OF n]
  have "pi / 2 < ?l - ?o - 2 * pi * of_int 1" "?l - ?o - 2 * pi * of_int 1 < pi"
    using n by simp_all
  from degrees_between [OF this]
  have a: "90 < lambda_omega_deg ?l ?o" "lambda_omega_deg ?l ?o < 180"
    using pi_gt_zero by (simp_all add: q(1))
  from degrees_between [OF q(2,3)]
  have b: "- 90 < theta_node_deg ?l ?o" "theta_node_deg ?l ?o < 0"
    using pi_gt_zero by (simp_all add: theta_node_deg_def)
  have c: "\<not> spec_same_sector (lambda_omega_deg ?l ?o) (theta_node_deg ?l ?o)"
    using a b by (simp add: spec_same_sector_def spec_sector_low spec_sector_negative)
  have d: "theta_node_corrected ?l ?o = theta_node_of ?l ?o + pi"
    by (rule theta_second_quadrant_corrected [OF n])
  let ?l' = "sun_lt2 (T00_of 51655) 12" and ?o' = "omega_node_of 51655"
  note n' = april_fourth_quadrant
  note q' = theta_fourth_quadrant [OF n']
  have "3 * pi / 2 < ?l' - ?o' - 2 * pi * of_int 0" "?l' - ?o' - 2 * pi * of_int 0 < 2 * pi"
    using n' by simp_all
  from degrees_between [OF this]
  have a': "270 < lambda_omega_deg ?l' ?o'" "lambda_omega_deg ?l' ?o' < 360"
    using pi_gt_zero by (simp_all add: q'(1))
  from degrees_between [OF q'(2,3)]
  have b': "- 90 < theta_node_deg ?l' ?o'" "theta_node_deg ?l' ?o' < 0"
    using pi_gt_zero by (simp_all add: theta_node_deg_def)
  have c': "spec_same_sector (lambda_omega_deg ?l' ?o') (theta_node_deg ?l' ?o')"
    using a' b' by (simp add: spec_same_sector_def spec_sector_high spec_sector_negative)
  have d': "theta_node_corrected ?l' ?o' = theta_node_of ?l' ?o'"
    by (rule theta_fourth_quadrant_corrected [OF n'])
  from a b c d a' b' c' d' show ?thesis
    unfolding Let_def by blast
qed

text \<open>
  Claim C5. For every container without attached position data, \<^verbatim>\<open>convert_RTN_to_GSE\<close>
  called without position arrays raises the exception that tells the caller to load
  position data first; it returns no container, converted or not.
\<close>

theorem convert_RTN_to_GSE_missing_positions:
  assumes "pos d = None"
  shows "convert_RTN_to_GSE cal d [] [] =
           Inl (Exception
             ''Load position data (SatData.load_position_data()) before calling convert_RTN_to_GSE()!'')"
  using assms by (simp add: convert_RTN_to_GSE_def getitem_time)

text \<open>The theorem at the example container of GSE data, which has no positions.\<close>

theorem convert_RTN_to_GSE_missing_positions_witness:
  "pos example_GSE = None
   \<and> convert_RTN_to_GSE example_calendar example_GSE [] [] =
           Inl (Exception
             ''Load position data (SatData.load_position_data()) before calling convert_RTN_to_GSE()!'')"
proof -
  have "pos example_GSE = None" by (simp add: example_GSE_def)
  with convert_RTN_to_GSE_missing_positions [of example_GSE example_calendar]
  show ?thesis by simp
qed

text \<open>
  What both conversions store. A successful \<^verbatim>\<open>convert_RTN_to_GSE\<close> overwrites the three
  components and appends \<^verbatim>\<open>-GSE\<close> to the frame label (\<open>convert_RTN_to_GSE_Inr\<close>); a
  successful \<^verbatim>\<open>convert_GSE_to_GSM\<close> overwrites the three components and leaves the header
  as it was (\<open>convert_GSE_to_GSM_Inr\<close>, \<open>convert_GSE_to_GSM_header\<close>).
\<close>

lemma convert_RTN_to_GSE_header:
  assumes "wf_SatData d" and "convert_RTN_to_GSE cal d pos_obj pos_tnum = Inr d'"
  shows "ReferenceFrame (h d') = ReferenceFrame (h d) @ ''-GSE''"
proof -
  from convert_RTN_to_GSE_Inr [OF assms] obtain gse where
    "d' = d\<lparr>data := (data d)[6 := map fst3 gse, 7 := map snd3 gse, 8 := map thd3 gse],
            vars := activate ''bz'' (activate ''by'' (activate ''bx'' (vars d))),
            h := (h d)\<lparr>ReferenceFrame := ReferenceFrame (h d) @ ''-GSE''\<rparr>\<rparr>"
    by blast
  then show ?thesis by simp
qed

lemma str_replace_GSE: "str_replace ''GSE'' ''GSE'' ''GSM'' = ''GSM''"
  by simp

text \<open>
  Claim C4 says that \<^verbatim>\<open>convert_GSE_to_GSM\<close> replaces \<^verbatim>\<open>GSE\<close> by \<^verbatim>\<open>GSM\<close> in the stored
  frame label. On the example container, whose label is \<^verbatim>\<open>GSE\<close>, the conversion returns
  a container whose label is still \<^verbatim>\<open>GSE\<close>: the source computes the replaced string
  \<^verbatim>\<open>GSM\<close> and does not store it.
\<close>

theorem convert_GSE_to_GSM_keeps_frame_label:
  "bind_sum (convert_GSE_to_GSM example_calendar example_GSE) (\<lambda>d'. Inr (ReferenceFrame (h d')))
     = Inr ''GSE''
   \<and> str_replace ''GSE'' ''GSE'' ''GSM'' = ''GSM''"
proof -
  obtain d' where d': "convert_GSE_to_GSM example_calendar example_GSE = Inr d'"
    using example_GSE_converts by blast
  have "h d' = h example_GSE"
    by (rule convert_GSE_to_GSM_header [OF wf_example_GSE d'])
  then have "ReferenceFrame (h d') = ''GSE''"
    by (simp add: example_GSE_def)
  then show ?thesis
    by (simp add: d' str_replace_GSE)
qed

section \<open>Proofs about assignment, the radial correction and merging\<close>

subsection \<open>Assignment to the time key\<close>

lemma SatData_init_time_inactive:
  assumes "SatData_init input_dict src hdr = Inr d"
  shows "''time'' \<notin> set (vars d)"
proof -
  have dist: "distinct default_keys"
    by (simp add: default_keys_def)
  have "vars d = remove1 ''time'' (filter (\<lambda>x. x \<in> set (map fst input_dict)) default_keys)"
    using assms
    by (auto simp: SatData_init_def Let_def split: list.splits option.splits if_splits)
  then show ?thesis
    using dist by simp
qed

lemma SatData_init_wf:
  assumes "SatData_init input_dict src hdr = Inr d"
  shows "wf_SatData d"
proof -
  obtain tm where tm: "map_of input_dict ''time'' = Some tm"
    and d: "d = \<lparr>data = map (\<lambda>x. case map_of input_dict x of
                                       Some v \<Rightarrow> v
                                     | None \<Rightarrow> replicate (length tm) 0) default_keys,
                     state = replicate (length tm) None,
                     source = src,
                     h = (case hdr of None \<Rightarrow> empty_header | Some x \<Rightarrow> x),
                     pos = None,
                     vars = remove1 ''time''
                       (filter (\<lambda>x. x \<in> set (map fst input_dict)) default_keys)\<rparr>"
    and all: "list_all (\<lambda>r. length r = length tm)
               (map (\<lambda>x. case map_of input_dict x of
                                       Some v \<Rightarrow> v
                                     | None \<Rightarrow> replicate (length tm) 0) default_keys)"
    using assms
    by (auto simp: SatData_init_def Let_def split: list.splits option.splits if_splits)
  have "len d = length tm"
    by (simp add: d len_def tm default_keys_def)
  then show ?thesis
    using all by (simp add: wf_SatData_def d)
qed

text \<open>
  Claim C10. For every container \<open>d\<close> and every array \<open>v\<close> of the length of the
  container, the assignment \<^verbatim>\<open>d['time'] = v\<close> does not raise and overwrites the stored
  time row; afterwards \<^verbatim>\<open>time\<close> is in \<^verbatim>\<open>d.vars\<close>, so it is among the keys an operation
  that iterates over \<^verbatim>\<open>d.vars\<close> treats (\<^verbatim>\<open>interp_nans\<close> without keys). Every container
  that the constructor returns has \<^verbatim>\<open>time\<close> removed from its active-variable list, and
  for every such container the assignment takes the activation branch: the time row is
  overwritten and \<^verbatim>\<open>time\<close> is appended to \<^verbatim>\<open>d.vars\<close>.
\<close>

theorem setitem_time_activates:
  assumes "length v = len d"
  shows "(\<exists>d'. setitem d ''time'' v = Inr d' \<and> data d' = (data d)[0 := v]
              \<and> ''time'' \<in> set (vars d') \<and> ''time'' \<in> set (interp_nans_keys d' None))
       \<and> (''time'' \<notin> set (vars d) \<longrightarrow>
            setitem d ''time'' v = Inr (d\<lparr>data := (data d)[0 := v], vars := vars d @ [''time'']\<rparr>))
       \<and> (SatData_init input_dict src hdr = Inr d \<longrightarrow> ''time'' \<notin> set (vars d))"
proof -
  have a: "assign_row d ''time'' v = Inr (d\<lparr>data := (data d)[0 := v]\<rparr>)"
    using assms by (simp add: assign_row_def Let_def default_keys_mem key_index_values len_def)
  have fresh: "setitem d ''time'' v = Inr (d\<lparr>data := (data d)[0 := v], vars := vars d @ [''time'']\<rparr>)"
    if "''time'' \<notin> set (vars d)"
    using that by (simp add: setitem_def a default_keys_mem)
  have again: "setitem d ''time'' v = Inr (d\<lparr>data := (data d)[0 := v]\<rparr>)"
    if "''time'' \<in> set (vars d)"
    using that by (simp add: setitem_def a)
  have first: "\<exists>d'. setitem d ''time'' v = Inr d' \<and> data d' = (data d)[0 := v]
              \<and> ''time'' \<in> set (vars d') \<and> ''time'' \<in> set (interp_nans_keys d' None)"
  proof (cases "''time'' \<in> set (vars d)")
    case True
    then show ?thesis by (simp add: again interp_nans_keys_def)
  next
    case False
    then show ?thesis by (simp add: fresh interp_nans_keys_def)
  qed
  from first fresh SatData_init_time_inactive show ?thesis by blast
qed

text \<open>The theorem at the example container, as the constructor returns it.\<close>

theorem setitem_time_activates_witness:
  "length [730121 :: real] = len example_GSE
   \<and> SatData_init
       [(''time'', [730120.5]), (''speed'', [400]), (''density'', [10]),
        (''bx'', [3]), (''by'', [4]), (''bz'', [0]), (''btot'', [5])]
       (Some ''DSCOVR'') (Some (empty_header\<lparr>ReferenceFrame := ''GSE''\<rparr>)) = Inr example_GSE
   \<and> ''time'' \<notin> set (vars example_GSE)
   \<and> setitem example_GSE ''time'' [730121] =
       Inr (example_GSE\<lparr>data := (data example_GSE)[0 := [730121]],
                        vars := vars example_GSE @ [''time'']\<rparr>)"
proof -
  have l: "length [730121 :: real] = len example_GSE"
    by (simp add: len_example_GSE)
  from setitem_time_activates [OF l, of
      "[(''time'', [730120.5]), (''speed'', [400]), (''density'', [10]),
        (''bx'', [3]), (''by'', [4]), (''bz'', [0]), (''btot'', [5])]"
      "Some ''DSCOVR''" "Some (empty_header\<lparr>ReferenceFrame := ''GSE''\<rparr>)"]
    example_GSE_constructed l
  show ?thesis by simp
qed

subsection \<open>The radial correction\<close>

lemma key_index_inj:
  assumes "k \<in> set default_keys" and "k' \<in> set default_keys" and "key_index k = key_index k'"
  shows "k = k'"
proof -
  have "default_keys ! key_index k = k"
    unfolding key_index_def by (rule first_index_nth [OF assms(1)])
  moreover have "default_keys ! key_index k' = k'"
    unfolding key_index_def by (rule first_index_nth [OF assms(2)])
  ultimately show ?thesis
    using assms(3) by metis
qed

lemma np_binop_same_length:
  "length xs = length ys \<Longrightarrow> np_binop f xs ys = Inr (map2 f xs ys)"
  by (simp add: np_binop_def)

lemma corr_factor_ok:
  assumes "length l1_r = length r" and "\<And>i. i < length r \<Longrightarrow> r ! i \<noteq> 0 \<and> l1_r ! i \<noteq> 0"
  shows "corr_factor l1_r r = Inr (map2 (\<lambda>a b. 1 / (a / b) ^ 2) l1_r r)"
proof -
  have r0: "0 \<notin> set r"
    using assms(2) by (auto simp: in_set_conv_nth)
  have q0: "0 \<notin> set (map2 (/) l1_r r)"
  proof
    assume "0 \<in> set (map2 (/) l1_r r)"
    then obtain i where "i < length (map2 (/) l1_r r)" and "map2 (/) l1_r r ! i = 0"
      by (metis in_set_conv_nth)
    then show False
      using assms by auto
  qed
  have "map (\<lambda>x. 1 / x ^ 2) (map2 (/) l1_r r) = map2 (\<lambda>a b. 1 / (a / b) ^ 2) l1_r r"
    by (simp add: map_zip_map2 split_def)
  then show ?thesis
    using r0 q0 assms(1) by (simp add: corr_factor_def np_binop_same_length)
qed

lemma scale_step_ok:
  assumes "wf_SatData s" and "length cf = len s" and "k \<in> set default_keys" and "k \<in> set (vars s)"
  shows "scale_step cf k s =
           Inr (s\<lparr>data := (data s)[key_index k := map2 (*) (data s ! key_index k) cf]\<rparr>)"
proof -
  have l: "length (data s ! key_index k) = len s"
    using assms(1,3) by (simp add: wf_row_length key_index_less)
  have "setitem s k (map2 (*) (data s ! key_index k) cf)
          = Inr (s\<lparr>data := (data s)[key_index k := map2 (*) (data s ! key_index k) cf],
                   vars := activate k (vars s)\<rparr>)"
    using l assms by (intro setitem_ok) simp_all
  then show ?thesis
    using assms l by (simp add: scale_step_def getitem_active np_binop_same_length activate_member)
qed

lemma fold_scale:
  assumes "wf_SatData s" and "length cf = len s"
      and "set ks \<subseteq> set default_keys" and "set ks \<subseteq> set (vars s)" and "distinct ks"
  shows "\<exists>s'. fold_sum (scale_step cf) ks s = Inr s' \<and> wf_SatData s' \<and> len s' = len s
            \<and> vars s' = vars s \<and> pos s' = pos s \<and> h s' = h s
            \<and> (\<forall>j < length default_keys. data s' ! j =
                  (if j \<in> key_index ` set ks then map2 (*) (data s ! j) cf else data s ! j))"
  using assms
proof (induction ks arbitrary: s)
  case Nil
  then show ?case by simp
next
  case (Cons k ks)
  let ?s1 = "s\<lparr>data := (data s)[key_index k := map2 (*) (data s ! key_index k) cf]\<rparr>"
  have kd: "k \<in> set default_keys" and kv: "k \<in> set (vars s)"
    using Cons.prems by auto
  have kl: "key_index k < length default_keys"
    by (rule key_index_less [OF kd])
  have step: "scale_step cf k s = Inr ?s1"
    by (rule scale_step_ok [OF Cons.prems(1,2) kd kv])
  have lrow: "length (map2 (*) (data s ! key_index k) cf) = len s"
    using Cons.prems(1,2) kl by (simp add: wf_row_length)
  have wf1: "wf_SatData ?s1" and len1: "len ?s1 = len s"
    using wf_update [OF Cons.prems(1) lrow kl, of "vars s"]
          len_update [OF Cons.prems(1) lrow kl, of "vars s"] by simp_all
  from Cons.IH [of ?s1] wf1 len1 Cons.prems
  obtain s' where s': "fold_sum (scale_step cf) ks ?s1 = Inr s'" "wf_SatData s'"
      "len s' = len s" "vars s' = vars s" "pos s' = pos s" "h s' = h s"
      and rows: "\<forall>j < length default_keys. data s' ! j =
                  (if j \<in> key_index ` set ks then map2 (*) (data ?s1 ! j) cf else data ?s1 ! j)"
    by auto
  have notin: "key_index k \<notin> key_index ` set ks"
  proof
    assume "key_index k \<in> key_index ` set ks"
    then obtain k' where "k' \<in> set ks" and "key_index k = key_index k'" by auto
    with key_index_inj [OF kd, of k'] Cons.prems(3,5) show False by auto
  qed
  have ld: "length (data s) = length default_keys"
    using Cons.prems(1) by (simp add: wf_SatData_def)
  have "data s' ! j =
          (if j \<in> key_index ` set (k # ks) then map2 (*) (data s ! j) cf else data s ! j)"
    if "j < length default_keys" for j
  proof (cases "j = key_index k")
    case True
    then show ?thesis
      using rows that notin ld by simp
  next
    case False
    then show ?thesis
      using rows that by auto
  qed
  then show ?case
    using s' step by simp
qed

lemma shift_vars_props:
  "set (filter (\<lambda>v. v \<in> set (vars d)) shift_var_list) \<subseteq> set default_keys"
  "set (filter (\<lambda>v. v \<in> set (vars d)) shift_var_list) \<subseteq> set (vars d)"
  "distinct (filter (\<lambda>v. v \<in> set (vars d)) shift_var_list)"
  by (auto simp: shift_var_list_def default_keys_def)

text \<open>
  The rows after the radial correction. For a well-formed container with an attached
  position object, let \<open>l1_r\<close> be the column \<open>r\<close> of the object that \<^verbatim>\<open>get_l1_position\<close>
  returns and \<open>r\<close> the monitor's, both non-zero at every sample. The correction returns
  a container in which, at every sample, every active variable of
  \<open>btot, br, bt, bn, bx, by, bz, density\<close> is the old value multiplied by \<open>l1_r / r\<close>
  to the power \<open>-2\<close>, and every other row (the speed rows among them) is unchanged; the
  active variables stay the same.
\<close>

lemma shift_wind_to_L1_rows:
  assumes wf: "wf_SatData d"
      and p: "pos d = Some p"
      and l1: "get_l1_position earth consts (data d ! 0) (Units (ph p)) (PosReferenceFrame (ph p))
                 ''SUN'' = Inr L1Pos"
      and l1r: "pos_getitem L1Pos ''r'' = Inr l1_r" and r: "pos_getitem p ''r'' = Inr r"
      and ll: "length l1_r = len d" and lr: "length r = len d"
      and nz: "\<And>i. i < len d \<Longrightarrow> r ! i \<noteq> 0 \<and> l1_r ! i \<noteq> 0"
  shows "\<exists>d'. snd (shift_wind_to_L1 earth consts d) = Inr d' \<and> vars d' = vars d
            \<and> wf_SatData d' \<and> len d' = len d
            \<and> (\<forall>k \<in> set default_keys. \<forall>i < len d.
                  data d' ! key_index k ! i =
                    (if k \<in> set shift_var_list \<and> k \<in> set (vars d)
                     then data d ! key_index k ! i * (1 / (l1_r ! i / r ! i) ^ 2)
                     else data d ! key_index k ! i))"
proof -
  let ?cf = "map2 (\<lambda>a b. 1 / (a / b) ^ 2) l1_r r"
  let ?ks = "filter (\<lambda>v. v \<in> set (vars d)) shift_var_list"
  have cf: "corr_factor l1_r r = Inr ?cf"
    using ll lr nz by (intro corr_factor_ok) simp_all
  have lcf: "length ?cf = len d"
    using ll lr by simp
  from fold_scale [OF wf lcf shift_vars_props]
  obtain d' where fold: "fold_sum (scale_step ?cf) ?ks d = Inr d'"
    and props: "wf_SatData d'" "len d' = len d" "vars d' = vars d"
    and rows: "\<forall>j < length default_keys. data d' ! j =
                  (if j \<in> key_index ` set ?ks then map2 (*) (data d ! j) ?cf else data d ! j)"
    by blast
  have res: "snd (shift_wind_to_L1 earth consts d) = Inr d'"
    by (simp add: shift_wind_to_L1_def p getitem_time l1 l1r r cf fold)
  have row: "data d' ! key_index k ! i =
                    (if k \<in> set shift_var_list \<and> k \<in> set (vars d)
                     then data d ! key_index k ! i * (1 / (l1_r ! i / r ! i) ^ 2)
                     else data d ! key_index k ! i)"
    if k: "k \<in> set default_keys" and i: "i < len d" for k i
  proof -
    have kl: "key_index k < length default_keys"
      by (rule key_index_less [OF k])
    have mem: "key_index k \<in> key_index ` set ?ks \<longleftrightarrow> k \<in> set shift_var_list \<and> k \<in> set (vars d)"
    proof
      assume "key_index k \<in> key_index ` set ?ks"
      then obtain k' where k': "k' \<in> set ?ks" and e: "key_index k = key_index k'" by auto
      have "k' \<in> set default_keys" using k' shift_vars_props(1) by blast
      from key_index_inj [OF k this e] k' show "k \<in> set shift_var_list \<and> k \<in> set (vars d)"
        by simp
    next
      assume "k \<in> set shift_var_list \<and> k \<in> set (vars d)"
      then show "key_index k \<in> key_index ` set ?ks" by simp
    qed
    have lrow: "length (data d ! key_index k) = len d"
      by (rule wf_row_length [OF wf kl])
    have rowk: "data d' ! key_index k =
                  (if k \<in> set shift_var_list \<and> k \<in> set (vars d)
                   then map2 (*) (data d ! key_index k) ?cf else data d ! key_index k)"
      using rows [rule_format, OF kl] by (simp only: mem)
    show ?thesis
    proof (cases "k \<in> set shift_var_list \<and> k \<in> set (vars d)")
      case True
      with rowk have "data d' ! key_index k = map2 (*) (data d ! key_index k) ?cf"
        by presburger
      then show ?thesis
        using True i lrow ll lr by simp
    next
      case False
      with rowk have "data d' ! key_index k = data d ! key_index k"
        by presburger
      then show ?thesis
        using False by auto
    qed
  qed
  from res props row show ?thesis by blast
qed

lemma example_l1_position:
  "get_l1_position example_earth example_constants [730120.5, 730120.75] ''AU'' ''HEEQ'' ''SUN''
     = Inr \<lparr>positions = [[1, 1], [0, 0], [0, 0]],
            ph = empty_pos_header\<lparr>CoordinateSystem := ''rlonlat'', Units := ''AU''\<rparr>,
            coors = [''r'', ''lon'', ''lat'']\<rparr>"
  by (simp add: get_l1_position_def example_earth_def example_constants_def PositionData_init_def
      str_lower_def lower_char_def fst3_def snd3_def thd3_def Let_def)

lemma wf_example_monitor: "wf_SatData example_monitor"
  by (simp add: wf_SatData_def example_monitor_def eval_nat_numeral len_def default_keys_def)

lemma len_example_monitor: "len example_monitor = 2"
  by (simp add: example_monitor_def eval_nat_numeral len_def)

text \<open>
  With the positions in AU and the Earth on the first axis, \<open>l1_r\<close> is the L1 distance:
  for density \<open>[10, 10]\<close> and the monitor at twice the L1 distance at both samples, the
  corrected density is \<open>[40, 40]\<close>, the total field is scaled by the same factor 4 and
  the speed is unchanged.
\<close>

lemma shift_wind_to_L1_example_AU:
  "wf_SatData example_monitor
   \<and> (\<exists>d'. snd (shift_wind_to_L1 example_earth example_constants example_monitor) = Inr d'
          \<and> vars d' = vars example_monitor
          \<and> data d' ! key_index ''density'' ! 0 = 40
          \<and> data d' ! key_index ''density'' ! 1 = 40
          \<and> data d' ! key_index ''btot'' ! 0 = 20
          \<and> data d' ! key_index ''speed'' ! 0 = 400
          \<and> data d' ! key_index ''speed'' ! 1 = 500)"
proof -
  let ?p = "\<lparr>positions = [[2, 2], [0, 0], [0, 0]],
             ph = \<lparr>PosReferenceFrame = ''HEEQ'', CoordinateSystem = ''rlonlat'',
                   Units = ''AU'', Object = [], Observer = Some ''SUN''\<rparr>,
             coors = [''r'', ''lon'', ''lat'']\<rparr>"
  let ?L1 = "\<lparr>positions = [[1, 1], [0, 0], [0, 0]],
            ph = empty_pos_header\<lparr>CoordinateSystem := ''rlonlat'', Units := ''AU''\<rparr>,
            coors = [''r'', ''lon'', ''lat'']\<rparr>"
  have p: "pos example_monitor = Some ?p"
    by (simp add: example_monitor_def eval_nat_numeral)
  have l1: "get_l1_position example_earth example_constants (data example_monitor ! 0)
              (Units (ph ?p)) (PosReferenceFrame (ph ?p)) ''SUN'' = Inr ?L1"
    using example_l1_position by (simp add: example_monitor_def eval_nat_numeral)
  have l1r: "pos_getitem ?L1 ''r'' = Inr [1, 1]"
    by (simp add: pos_getitem_def)
  have r: "pos_getitem ?p ''r'' = Inr [2, 2]"
    by (simp add: pos_getitem_def)
  have nz: "\<And>i. i < len example_monitor \<Longrightarrow> [2, 2 :: real] ! i \<noteq> 0 \<and> [1, 1 :: real] ! i \<noteq> 0"
    by (simp add: len_example_monitor nth_Cons')
  from shift_wind_to_L1_rows [OF wf_example_monitor p l1 l1r r _ _ nz]
  obtain d' where res: "snd (shift_wind_to_L1 example_earth example_constants example_monitor) = Inr d'"
    and v: "vars d' = vars example_monitor"
    and rows: "\<forall>k \<in> set default_keys. \<forall>i < len example_monitor.
                  data d' ! key_index k ! i =
                    (if k \<in> set shift_var_list \<and> k \<in> set (vars example_monitor)
                     then data example_monitor ! key_index k ! i * (1 / ([1, 1] ! i / [2, 2] ! i) ^ 2)
                     else data example_monitor ! key_index k ! i)"
    by (auto simp: len_example_monitor)
  have lt: "0 < len example_monitor" "1 < len example_monitor"
    by (simp_all add: len_example_monitor)
  have d0: "data d' ! key_index ''density'' ! 0 = 40"
    using rows [rule_format, OF _ lt(1), of "''density''"]
    by (simp add: default_keys_mem shift_var_list_def key_index_values
        example_monitor_def eval_nat_numeral power2_eq_square)
  have d1: "data d' ! key_index ''density'' ! 1 = 40"
    using rows [rule_format, OF _ lt(2), of "''density''"]
    by (simp add: default_keys_mem shift_var_list_def key_index_values
        example_monitor_def eval_nat_numeral power2_eq_square)
  have b0: "data d' ! key_index ''btot'' ! 0 = 20"
    using rows [rule_format, OF _ lt(1), of "''btot''"]
    by (simp add: default_keys_mem shift_var_list_def key_index_values
        example_monitor_def eval_nat_numeral power2_eq_square)
  have s0: "data d' ! key_index ''speed'' ! 0 = 400"
    using rows [rule_format, OF _ lt(1), of "''speed''"]
    by (simp add: default_keys_mem shift_var_list_def key_index_values
        example_monitor_def eval_nat_numeral)
  have s1: "data d' ! key_index ''speed'' ! 1 = 500"
    using rows [rule_format, OF _ lt(2), of "''speed''"]
    by (simp add: default_keys_mem shift_var_list_def key_index_values
        example_monitor_def eval_nat_numeral)
  from res v d0 d1 b0 s0 s1 wf_example_monitor show ?thesis by blast
qed

subsection \<open>The radial correction with positions in km\<close>

lemma example_l1_position_km:
  "get_l1_position example_earth_km example_constants [730120.5, 730120.75] ''km'' ''HEEQ'' ''SUN''
     = Inr \<lparr>positions = [[151093849.397, 151093849.397], [0, 0], [0, 0]],
            ph = empty_pos_header\<lparr>CoordinateSystem := ''rlonlat'', Units := ''km''\<rparr>,
            coors = [''r'', ''lon'', ''lat'']\<rparr>"
  by (simp add: get_l1_position_def example_earth_km_def example_constants_def PositionData_init_def
      str_lower_def lower_char_def fst3_def snd3_def thd3_def Let_def)

lemma wf_example_monitor_km: "wf_SatData example_monitor_km"
  by (simp add: wf_SatData_def example_monitor_km_def eval_nat_numeral len_def default_keys_def)

lemma len_example_monitor_km: "len example_monitor_km = 2"
  by (simp add: example_monitor_km_def eval_nat_numeral len_def)

text \<open>\<^verbatim>\<open>load_positions\<close> with \<^verbatim>\<open>l1_corr\<close> subtracts the distance to L1 in the unit asked
  for: for the Earth of the example in km it stores the L1 distance 149597870.7 km.\<close>

lemma sqrt_l1_km: "sqrt (2237952291797391849 / 100) = 1495978707 / 10"
  by (rule real_sqrt_unique) (simp_all add: power2_eq_square)

lemma load_positions_l1_corr_km:
  "bind_sum (snd (load_positions example_constants example_monitor_km ''HEEQ'' ''km'' ''SUN'' True True))
     (\<lambda>d'. case pos d' of None \<Rightarrow> Inl AttributeError | Some p \<Rightarrow> pos_getitem p ''r'')
   = Inr [149597870.7, 149597870.7]"
  by (simp add: load_positions_def getitem_time example_monitor_km_def example_earth_km_def
      example_constants_def PositionData_init_def str_lower_def lower_char_def fst3_def snd3_def
      thd3_def Let_def cart2sphere_def pos_getitem_def eval_nat_numeral sqrt_l1_km)

text \<open>
  Claim C7 says that the factor is (L1 distance / monitor distance) to the power \<open>-2\<close>, so
  that density \<open>[10, 10]\<close> with the monitor at twice the L1 distance becomes \<open>[40, 40]\<close>.
  For the container with positions in km the monitor is at 299195741.4 km, twice the L1
  distance 149597870.7 km. \<^verbatim>\<open>get_l1_position\<close> subtracts \<^verbatim>\<open>dist_to_L1/AU = 0.01\<close> from
  the Earth's distance whatever the unit: the L1 distance it returns is 151093849.397 km,
  and the corrected density is \<open>10 * (299195741.4 / 151093849.397)\<^sup>2\<close> at both samples,
  which is below 40. The speed is unchanged.
\<close>

theorem shift_wind_to_L1_km_positions:
  "(151093849.407 :: real) - dist_to_L1 example_constants = 299195741.4 / 2
   \<and> bind_sum (get_l1_position example_earth_km example_constants [730120.5, 730120.75]
                 ''km'' ''HEEQ'' ''SUN'') (\<lambda>L1Pos. pos_getitem L1Pos ''r'')
     = Inr [151093849.397, 151093849.397]
   \<and> (\<exists>d'. snd (shift_wind_to_L1 example_earth_km example_constants example_monitor_km) = Inr d'
          \<and> data d' ! key_index ''density'' ! 0 = 10 * (299195741.4 / 151093849.397) ^ 2
          \<and> data d' ! key_index ''density'' ! 1 = 10 * (299195741.4 / 151093849.397) ^ 2
          \<and> data d' ! key_index ''density'' ! 0 < 40
          \<and> data d' ! key_index ''speed'' ! 0 = 400)"
proof -
  let ?p = "\<lparr>positions = [[299195741.4, 299195741.4], [0, 0], [0, 0]],
             ph = \<lparr>PosReferenceFrame = ''HEEQ'', CoordinateSystem = ''rlonlat'',
                   Units = ''km'', Object = [], Observer = Some ''SUN''\<rparr>,
             coors = [''r'', ''lon'', ''lat'']\<rparr>"
  let ?L1 = "\<lparr>positions = [[151093849.397, 151093849.397], [0, 0], [0, 0]],
            ph = empty_pos_header\<lparr>CoordinateSystem := ''rlonlat'', Units := ''km''\<rparr>,
            coors = [''r'', ''lon'', ''lat'']\<rparr>"
  have au: "(151093849.407 :: real) - dist_to_L1 example_constants = 299195741.4 / 2"
    by (simp add: example_constants_def)
  have p: "pos example_monitor_km = Some ?p"
    by (simp add: example_monitor_km_def eval_nat_numeral)
  have l1: "get_l1_position example_earth_km example_constants (data example_monitor_km ! 0)
              (Units (ph ?p)) (PosReferenceFrame (ph ?p)) ''SUN'' = Inr ?L1"
    using example_l1_position_km by (simp add: example_monitor_km_def eval_nat_numeral)
  have l1r: "pos_getitem ?L1 ''r'' = Inr [151093849.397, 151093849.397]"
    by (simp add: pos_getitem_def)
  have g: "bind_sum (get_l1_position example_earth_km example_constants [730120.5, 730120.75]
                 ''km'' ''HEEQ'' ''SUN'') (\<lambda>L1Pos. pos_getitem L1Pos ''r'')
           = Inr [151093849.397, 151093849.397]"
    by (simp only: example_l1_position_km bind_sum_Inr l1r)
  have r: "pos_getitem ?p ''r'' = Inr [299195741.4, 299195741.4]"
    by (simp add: pos_getitem_def)
  have nz: "\<And>i. i < len example_monitor_km \<Longrightarrow>
              [299195741.4, 299195741.4 :: real] ! i \<noteq> 0
              \<and> [151093849.397, 151093849.397 :: real] ! i \<noteq> 0"
    by (simp add: len_example_monitor_km nth_Cons')
  from shift_wind_to_L1_rows [OF wf_example_monitor_km p l1 l1r r _ _ nz]
  obtain d' where res: "snd (shift_wind_to_L1 example_earth_km example_constants example_monitor_km) = Inr d'"
    and rows: "\<forall>k \<in> set default_keys. \<forall>i < len example_monitor_km.
                  data d' ! key_index k ! i =
                    (if k \<in> set shift_var_list \<and> k \<in> set (vars example_monitor_km)
                     then data example_monitor_km ! key_index k ! i
                          * (1 / ([151093849.397, 151093849.397] ! i
                                  / [299195741.4, 299195741.4] ! i) ^ 2)
                     else data example_monitor_km ! key_index k ! i)"
    by (auto simp: len_example_monitor_km)
  have lt: "0 < len example_monitor_km" "1 < len example_monitor_km"
    by (simp_all add: len_example_monitor_km)
  have d0: "data d' ! key_index ''density'' ! 0 = 10 * (299195741.4 / 151093849.397) ^ 2"
    using rows [rule_format, OF _ lt(1), of "''density''"]
    by (simp add: default_keys_mem shift_var_list_def key_index_values
        example_monitor_km_def eval_nat_numeral power2_eq_square)
  have d1: "data d' ! key_index ''density'' ! 1 = 10 * (299195741.4 / 151093849.397) ^ 2"
    using rows [rule_format, OF _ lt(2), of "''density''"]
    by (simp add: default_keys_mem shift_var_list_def key_index_values
        example_monitor_km_def eval_nat_numeral power2_eq_square)
  have less: "10 * (299195741.4 / 151093849.397) ^ 2 < (40 :: real)"
    by (simp add: power2_eq_square)
  have s0: "data d' ! key_index ''speed'' ! 0 = 400"
    using rows [rule_format, OF _ lt(1), of "''speed''"]
    by (simp add: default_keys_mem shift_var_list_def key_index_values
        example_monitor_km_def eval_nat_numeral)
  from au g res d0 d1 less s0 show ?thesis by (metis (no_types, lifting))
qed

subsection \<open>The corrections without position data\<close>

lemma shift_wind_to_L1_no_positions:
  "pos d = None \<Longrightarrow> shift_wind_to_L1 earth consts d = ([], Inl AttributeError)"
  by (simp add: shift_wind_to_L1_def)

lemma shift_time_to_L1_warns:
  assumes "pos d = None"
  shows "\<exists>rest. fst (shift_time_to_L1 heliosat earth consts d sun_syn ''new'')
         = Warning ''Loading position data (SatData.load_positions()) for shift_time_to_L1()!''
           # Info (''load_positions: Loading position data into '' @ source_name d @ '' data'')
           # rest"
  using assms
  by (simp add: shift_time_to_L1_def Let_def load_positions_def split: sum.splits prod.splits)

lemma load_positions_attaches:
  assumes "HeliosatObject (h d) = Some trajectory"
  shows "\<exists>d1. snd (load_positions consts d ''HEEQ'' ''AU'' ''SUN'' True False) = Inr d1
            \<and> data d1 = data d
            \<and> map_option (\<lambda>P. (Units (ph P), PosReferenceFrame (ph P), coors P)) (pos d1)
                = Some (''AU'', ''HEEQ'', [''r'', ''lon'', ''lat''])"
  using assms
  by (simp add: load_positions_def getitem_time Let_def PositionData_init_def str_lower_def
      lower_char_def)

text \<open>
  Claim C6 says that both L1 corrections load missing position data on demand, with a
  logged warning. \<^verbatim>\<open>shift_time_to_L1\<close> does: its log starts with the warning and
  \<^verbatim>\<open>load_positions\<close> runs (\<open>shift_time_to_L1_warns\<close>, \<open>load_positions_attaches\<close>). On
  the example container without positions \<^verbatim>\<open>shift_wind_to_L1\<close> logs nothing and raises
  \<^verbatim>\<open>AttributeError\<close>, from reading \<^verbatim>\<open>self.pos.h\<close>.
\<close>

theorem shift_wind_to_L1_without_positions_fails:
  "shift_wind_to_L1 example_earth example_constants example_GSE = ([], Inl AttributeError)
   \<and> hd (fst (shift_time_to_L1 heliosat example_earth example_constants example_GSE 26.24 ''new''))
       = Warning ''Loading position data (SatData.load_positions()) for shift_time_to_L1()!''"
proof -
  have none: "pos example_GSE = None" by (simp add: example_GSE_def)
  from shift_time_to_L1_warns [OF none, of heliosat example_earth example_constants "26.24"]
  obtain rest where
    "fst (shift_time_to_L1 heliosat example_earth example_constants example_GSE 26.24 ''new'')
       = Warning ''Loading position data (SatData.load_positions()) for shift_time_to_L1()!''
         # Info (''load_positions: Loading position data into '' @ source_name example_GSE
                  @ '' data'') # rest"
    by blast
  then show ?thesis
    by (simp add: shift_wind_to_L1_no_positions [OF none])
qed

subsection \<open>Merging\<close>

text \<open>
  The time step of a merge is one hour for every declared sampling rate below
  \<open>1/24 + 0.0001\<close> days, so the branch for minute data is never taken; the continuation
  axis has one point fewer than the count \<^verbatim>\<open>n_timesteps\<close> the source computes for it.
\<close>

lemma length_merge_new_time:
  "length (merge_new_time t1_last t2_last timestep)
   = np_arange_len (t1_last + timestep) t2_last timestep - 1"
  by (simp add: merge_new_time_def Let_def)

lemma merge_new_time_between:
  assumes "0 < timestep" and "x \<in> set (merge_new_time t1_last t2_last timestep)"
  shows "t1_last < x \<and> x + timestep < t2_last"
proof -
  let ?n = "np_arange_len (t1_last + timestep) t2_last timestep"
  from assms(2) obtain k where k: "1 \<le> k" "k < ?n" and x: "x = t1_last + real k * timestep"
    by (auto simp: merge_new_time_def Let_def)
  have "int k < \<lceil>(t2_last - (t1_last + timestep)) / timestep\<rceil>"
    using k(2) by (simp add: np_arange_len_def)
  then have "real k < (t2_last - (t1_last + timestep)) / timestep"
    by (simp add: less_ceiling_iff)
  then have "real k * timestep < t2_last - (t1_last + timestep)"
    using assms(1) by (simp add: pos_less_divide_eq)
  moreover have "0 < real k * timestep"
    using k(1) assms(1) by simp
  ultimately show ?thesis
    unfolding x by linarith
qed

lemma merge_timestep_positive: "0 < merge_timestep rate"
  by (simp add: merge_timestep_def)

lemma merge_timestep_hour: "rate < 1 / 24 + 0.0001 \<Longrightarrow> merge_timestep rate = 1 / 24"
  by (simp add: merge_timestep_def)

lemma merge_new_time_empty: "merge_new_time 2 4 1 = []"
  by (simp add: merge_new_time_def np_arange_len_def Let_def)

lemma merge_new_time_example: "merge_new_time 2 7 1 = [3, 4, 5]"
proof -
  have "[1..<4] = [1, 2, 3]" by (simp add: upt_rec)
  then show ?thesis
    by (simp add: merge_new_time_def np_arange_len_def Let_def)
qed

lemma spec_continuation_example: "spec_continuation 2 7 1 = [3, 4, 5, 6, 7]"
proof -
  have "[1..<6] = [1, 2, 3, 4, 5]" by (simp add: upt_rec)
  then show ?thesis
    by (simp add: spec_continuation_def)
qed

lemma merge_timestep_day: "merge_timestep 1 = 1"
  by (simp add: merge_timestep_def)

lemma merge_timestep_minute: "merge_timestep (1 / 1440) = 1 / 24"
  by (simp add: merge_timestep_def)

lemma merge_timestep_minute_branch_dead: "merge_timestep rate \<noteq> 1 / 24 / 60"
  by (simp add: merge_timestep_def)

lemma example_interp:
  "np_interp [3, 4, 5] [2, 3, 4, 5, 6, 7] [420, 430, 440, 450, 460, 470] = Inr [430, 440, 450]"
  by (simp add: np_interp_def)

lemma example_merge:
  "merge_Data fmt example_first example_second None =
     Inr \<lparr>data = [0, 1, 2, 3, 4, 5] # [400, 410, 420, 430, 440, 450]
                   # replicate 16 (replicate 6 0),
      state = replicate 6 None,
      source = Some ''A+B'',
      h = empty_header\<lparr>DataSource := '' ('' @ fmt 0 @ '' - '' @ fmt 2 @ '') &  (''
                                           @ fmt 3 @ '' - '' @ fmt 5 @ '')'',
                          SamplingRate := Some 1\<rparr>,
      pos = None,
      vars = [''speed'']\<rparr>"
  by (simp add: merge_Data_def example_first_def example_second_def getitem_def
      default_keys_def key_index_def merge_timestep_day merge_new_time_example example_interp
      SatData_init_def empty_header_def dict_merge_def Let_def eval_nat_numeral)

text \<open>
  Claim C8 says that the merged time axis continues from just after the last sample of the
  first data set, at its declared sampling rate, up to the last sample of the second. For
  daily data on days 0 to 2 merged with daily data on days 2 to 7, the merged time axis is
  days 0 to 5: the continuation is \<open>[3, 4, 5]\<close>, while the points after day 2 up to day 7
  are \<open>[3, 4, 5, 6, 7]\<close>. And a first data set that declares a sampling rate of one
  minute is continued in steps of one hour.
\<close>

theorem merge_Data_continuation_stops_short:
  "bind_sum (merge_Data fmt example_first example_second None) (\<lambda>m. getitem m ''time'')
     = Inr [0, 1, 2, 3, 4, 5]
   \<and> getitem example_first ''time'' = Inr [0, 1, 2]
   \<and> getitem example_second ''time'' = Inr [2, 3, 4, 5, 6, 7]
   \<and> spec_continuation 2 7 1 = [3, 4, 5, 6, 7]
   \<and> merge_timestep (1 / 1440) = 1 / 24"
  by (simp add: example_merge getitem_time spec_continuation_example merge_timestep_minute)
     (simp add: example_first_def example_second_def eval_nat_numeral)

end
